theory Spec2Isabelle
  imports Complex_Main "HOL-Library.AList" "HOL-Library.Log_Nat"
begin

section \<open>Smart TabGuard: a shallow embedding of the extension's logic\<close>

text \<open>
  The extension consists of a storage service (\<^verbatim>\<open>services/storage.ts\<close>), a summarizer
  service (\<^verbatim>\<open>services/summarizer.ts\<close>), a background script (\<^verbatim>\<open>background.ts\<close>),
  a content script (\<^verbatim>\<open>content.ts\<close>) and a popup script (\<^verbatim>\<open>popup.ts\<close>). Each function
  is embedded as a HOL function on an explicit state; the browser interfaces it calls
  (\<^verbatim>\<open>chrome.storage\<close>, the Summarizer API, the URL parser, the clock) are part of that
  state or parameters of the function.
\<close>

subsection \<open>Data model (\<^verbatim>\<open>services/summarizer.ts\<close>, \<^verbatim>\<open>services/storage.ts\<close>)\<close>

datatype summary_type = KeyPoints | Tldr | Teaser | Headline

datatype summary_length = Short | Medium | Long

record TabSummary =
  summary_tabId :: int
  summary_url :: string
  summary_title :: string
  summary_text :: string
  summary_kind :: summary_type
  summary_len :: summary_length
  timestamp :: int

datatype protection_level = ProtectionNone | ProtectionBasic | ProtectionEnhanced

record TabData =
  tabId :: int
  url :: string
  title :: string
  hasUnsavedChanges :: bool
  summary :: "TabSummary option"
  lastUpdated :: int
  protectionLevel :: protection_level

record SummaryTypes =
  forms :: summary_type
  articles :: summary_type
  documents :: summary_type
  general :: summary_type

record ExtensionSettings =
  protectedSites :: "string list"
  aiFeaturesEnabled :: bool
  autoSummarize :: bool
  summaryTypes :: SummaryTypes
  maxSummariesPerTab :: int
  summaryRetentionDays :: int

text \<open>
  \<^verbatim>\<open>Partial<ExtensionSettings>\<close>, the argument of \<^verbatim>\<open>saveSettings\<close>: every field may be
  missing.
\<close>

record SettingsPatch =
  patch_protectedSites :: "string list option"
  patch_aiFeaturesEnabled :: "bool option"
  patch_autoSummarize :: "bool option"
  patch_summaryTypes :: "SummaryTypes option"
  patch_maxSummariesPerTab :: "int option"
  patch_summaryRetentionDays :: "int option"

definition no_patch :: SettingsPatch where
  "no_patch = \<lparr>patch_protectedSites = None, patch_aiFeaturesEnabled = None,
     patch_autoSummarize = None, patch_summaryTypes = None,
     patch_maxSummariesPerTab = None, patch_summaryRetentionDays = None\<rparr>"

subsection \<open>Strings\<close>

text \<open>
  A JavaScript string is the list of its UTF-16 code units; a \<^typ>\<open>char\<close> stands for
  a code unit below 256, so the strings of the model are the Latin-1 strings (URLs and
  host names, as the browser serialises them, are ASCII).
\<close>

fun startsWith :: "string \<Rightarrow> string \<Rightarrow> bool" where
  "startsWith s [] = True"
| "startsWith [] (p # ps) = False"
| "startsWith (c # cs) (p # ps) = (c = p \<and> startsWith cs ps)"

text \<open>\<^verbatim>\<open>String.prototype.includes\<close>: the argument occurs as a contiguous substring.\<close>

fun string_includes :: "string \<Rightarrow> string \<Rightarrow> bool" where
  "string_includes [] sub = (sub = [])"
| "string_includes (c # cs) sub = (startsWith (c # cs) sub \<or> string_includes cs sub)"

text \<open>
  \<^verbatim>\<open>toLowerCase\<close> on a code unit below 256: the letters A-Z and the Latin-1 capitals
  (U+00C0 to U+00DE without the multiplication sign U+00D7) move up by 32.
\<close>

definition toLowerCase_unit :: "char \<Rightarrow> char" where
  "toLowerCase_unit c =
     (let n = (of_char c :: nat)
      in if (65 \<le> n \<and> n \<le> 90) \<or> (192 \<le> n \<and> n \<le> 222 \<and> n \<noteq> 215)
         then char_of (n + 32) else c)"

definition toLowerCase :: "string \<Rightarrow> string" where
  "toLowerCase s = map toLowerCase_unit s"

text \<open>
  The white space and line terminators that \<^verbatim>\<open>trim\<close> strips, among the code units
  below 256: tab, line feed, vertical tab, form feed, carriage return, space and the
  no-break space.
\<close>

definition is_whitespace :: "char \<Rightarrow> bool" where
  "is_whitespace c = ((of_char c :: nat) \<in> {9, 10, 11, 12, 13, 32, 160})"

definition trim :: "string \<Rightarrow> string" where
  "trim s = rev (dropWhile is_whitespace (rev (dropWhile is_whitespace s)))"

text \<open>\<^verbatim>\<open>Array.prototype.includes\<close>.\<close>

definition array_includes :: "'a list \<Rightarrow> 'a \<Rightarrow> bool" where
  "array_includes xs x = (x \<in> set xs)"

text \<open>\<^verbatim>\<open>a || b\<close> on strings that may be missing: the empty string is falsy.\<close>

definition string_or :: "string option \<Rightarrow> string \<Rightarrow> string" where
  "string_or a b = (case a of None \<Rightarrow> b | Some v \<Rightarrow> if v = [] then b else v)"

subsection \<open>The browser's key-value stores\<close>

text \<open>
  \<^verbatim>\<open>chrome.storage.local\<close> is written by \<^verbatim>\<open>saveTabData\<close> only, so its values are
  \<^verbatim>\<open>TabData\<close> objects; it is an association list from keys to records, in the order
  in which \<^verbatim>\<open>get(null)\<close> enumerates it. \<^verbatim>\<open>chrome.storage.sync\<close> holds two keys:
  \<^verbatim>\<open>settings\<close> (used by the storage service) and \<^verbatim>\<open>protectedSites\<close> (used by the
  background script, the popup and the options page). A key that was never set is
  \<open>None\<close>.
\<close>

record Storage =
  local_area :: "(string \<times> TabData) list"
  sync_settings :: "ExtensionSettings option"
  sync_protectedSites :: "string list option"

definition empty_storage :: Storage where
  "empty_storage = \<lparr>local_area = [], sync_settings = None, sync_protectedSites = None\<rparr>"

subsection \<open>Template keys: \<^verbatim>\<open>`tab_${tabId}`\<close>\<close>

definition digit_char :: "nat \<Rightarrow> char" where
  "digit_char d = ''0123456789'' ! d"

fun nat_to_string :: "nat \<Rightarrow> string" where
  "nat_to_string n =
     (if n < 10 then [digit_char n]
      else nat_to_string (n div 10) @ [digit_char (n mod 10)])"

declare nat_to_string.simps [simp del]

text \<open>The string of an integral Number, as a template literal prints it.\<close>

definition number_to_string :: "int \<Rightarrow> string" where
  "number_to_string i =
     (if i < 0 then CHR ''-'' # nat_to_string (nat (- i)) else nat_to_string (nat i))"

definition tab_key :: "int \<Rightarrow> string" where
  "tab_key i = ''tab_'' @ number_to_string i"


subsection \<open>\<^verbatim>\<open>StorageService\<close> (\<^verbatim>\<open>services/storage.ts\<close>)\<close>

definition saveTabData :: "TabData \<Rightarrow> Storage \<Rightarrow> Storage" where
  "saveTabData tabData st =
     (let key = tab_key (tabId tabData)
      in st\<lparr>local_area := AList.update key tabData (local_area st)\<rparr>)"

definition getTabData :: "int \<Rightarrow> Storage \<Rightarrow> TabData option" where
  "getTabData i st = (let key = tab_key i in map_of (local_area st) key)"

text \<open>
  The loop over \<^verbatim>\<open>Object.entries(result)\<close>; \<^verbatim>\<open>typeof value === 'object'\<close> holds of
  every stored record.
\<close>

fun getAllTabData_loop :: "(string \<times> TabData) list \<Rightarrow> TabData list \<Rightarrow> TabData list" where
  "getAllTabData_loop [] tabData = tabData"
| "getAllTabData_loop ((key, val) # rest) tabData =
     (if startsWith key ''tab_'' then getAllTabData_loop rest (tabData @ [val])
      else getAllTabData_loop rest tabData)"

definition getAllTabData :: "Storage \<Rightarrow> TabData list" where
  "getAllTabData st = getAllTabData_loop (local_area st) []"

definition removeTabData :: "int \<Rightarrow> Storage \<Rightarrow> Storage" where
  "removeTabData i st =
     (let key = tab_key i in st\<lparr>local_area := AList.delete key (local_area st)\<rparr>)"

text \<open>\<open>now\<close> is the value of \<^verbatim>\<open>Date.now()\<close>.\<close>

definition updateTabSummary :: "int \<Rightarrow> TabSummary \<Rightarrow> int \<Rightarrow> Storage \<Rightarrow> Storage" where
  "updateTabSummary i s now st =
     (case getTabData i st of
        Some tabData \<Rightarrow> saveTabData (tabData\<lparr>summary := Some s, lastUpdated := now\<rparr>) st
      | None \<Rightarrow> st)"

definition getDefaultSettings :: ExtensionSettings where
  "getDefaultSettings =
     \<lparr>protectedSites = [],
      aiFeaturesEnabled = True,
      autoSummarize = True,
      summaryTypes = \<lparr>forms = KeyPoints, articles = Teaser, documents = Tldr,
                      general = KeyPoints\<rparr>,
      maxSummariesPerTab = 5,
      summaryRetentionDays = 7\<rparr>"

definition getSettings :: "Storage \<Rightarrow> ExtensionSettings" where
  "getSettings st =
     (case sync_settings st of Some settings \<Rightarrow> settings | None \<Rightarrow> getDefaultSettings)"

definition or_else :: "'a option \<Rightarrow> 'a \<Rightarrow> 'a" where
  "or_else p d = (case p of Some v \<Rightarrow> v | None \<Rightarrow> d)"

text \<open>The spread \<^verbatim>\<open>{ ...currentSettings, ...settings }\<close>.\<close>

definition spread :: "ExtensionSettings \<Rightarrow> SettingsPatch \<Rightarrow> ExtensionSettings" where
  "spread cur p =
     \<lparr>protectedSites = or_else (patch_protectedSites p) (protectedSites cur),
      aiFeaturesEnabled = or_else (patch_aiFeaturesEnabled p) (aiFeaturesEnabled cur),
      autoSummarize = or_else (patch_autoSummarize p) (autoSummarize cur),
      summaryTypes = or_else (patch_summaryTypes p) (summaryTypes cur),
      maxSummariesPerTab = or_else (patch_maxSummariesPerTab p) (maxSummariesPerTab cur),
      summaryRetentionDays =
        or_else (patch_summaryRetentionDays p) (summaryRetentionDays cur)\<rparr>"

definition saveSettings :: "SettingsPatch \<Rightarrow> Storage \<Rightarrow> Storage" where
  "saveSettings settings st =
     (let currentSettings = getSettings st;
          updatedSettings = spread currentSettings settings
      in st\<lparr>sync_settings := Some updatedSettings\<rparr>)"

definition getProtectedSites :: "Storage \<Rightarrow> string list" where
  "getProtectedSites st = protectedSites (getSettings st)"

definition addProtectedSite :: "string \<Rightarrow> Storage \<Rightarrow> Storage" where
  "addProtectedSite site st =
     (let sites = getProtectedSites st
      in if \<not> array_includes sites site
         then saveSettings (no_patch\<lparr>patch_protectedSites := Some (sites @ [site])\<rparr>) st
         else st)"

definition removeProtectedSite :: "string \<Rightarrow> Storage \<Rightarrow> Storage" where
  "removeProtectedSite site st =
     (let sites = getProtectedSites st;
          filteredSites = filter (\<lambda>s. s \<noteq> site) sites
      in saveSettings (no_patch\<lparr>patch_protectedSites := Some filteredSites\<rparr>) st)"

definition isAIFeaturesEnabled :: "Storage \<Rightarrow> bool" where
  "isAIFeaturesEnabled st = aiFeaturesEnabled (getSettings st)"

definition setAIFeaturesEnabled :: "bool \<Rightarrow> Storage \<Rightarrow> Storage" where
  "setAIFeaturesEnabled enabled st =
     saveSettings (no_patch\<lparr>patch_aiFeaturesEnabled := Some enabled\<rparr>) st"

definition isAutoSummarizeEnabled :: "Storage \<Rightarrow> bool" where
  "isAutoSummarizeEnabled st = autoSummarize (getSettings st)"

fun cleanup_loop :: "TabData list \<Rightarrow> Storage \<Rightarrow> Storage" where
  "cleanup_loop [] st = st"
| "cleanup_loop (tab # rest) st = cleanup_loop rest (removeTabData (tabId tab) st)"

definition cleanupOldSummaries :: "int \<Rightarrow> Storage \<Rightarrow> Storage" where
  "cleanupOldSummaries now st =
     (let settings = getSettings st;
          retentionMs = summaryRetentionDays settings * 24 * 60 * 60 * 1000;
          cutoffTime = now - retentionMs;
          allTabData = getAllTabData st;
          tabsToClean =
            filter (\<lambda>tab. lastUpdated tab < cutoffTime \<and> \<not> hasUnsavedChanges tab) allTabData
      in cleanup_loop tabsToClean st)"

text \<open>
  What the service maintains in \<^verbatim>\<open>chrome.storage.local\<close>: keys are unique (it is a
  key-value store) and the record under a key carries the tab identifier the key was
  built from.
\<close>

definition store_ok :: "(string \<times> TabData) list \<Rightarrow> bool" where
  "store_ok al = (distinct (map fst al) \<and> map fst al = map (\<lambda>kv. tab_key (tabId (snd kv))) al)"


subsection \<open>The background context (\<^verbatim>\<open>background.ts\<close>, \<^verbatim>\<open>services/summarizer.ts\<close>)\<close>

datatype js_error = Error string

datatype log_entry = ConsoleLog string | ConsoleError string js_error

record SummarizationStatus =
  isProcessing :: bool
  lastAttempt :: int
  errorCount :: nat

datatype summary_format = Markdown | PlainText

text \<open>\<^verbatim>\<open>SummarizerConfig\<close>: every field is optional.\<close>

record SummarizerConfig =
  config_type :: "summary_type option"
  config_format :: "summary_format option"
  config_length :: "summary_length option"
  config_sharedContext :: "string option"

definition empty_config :: SummarizerConfig where
  "empty_config = \<lparr>config_type = None, config_format = None, config_length = None,
     config_sharedContext = None\<rparr>"

text \<open>The options a summarizer object was created with stand for the object.\<close>

record SummarizerOptions =
  option_type :: summary_type
  option_format :: summary_format
  option_length :: summary_length
  option_sharedContext :: "string option"

datatype availability = Unavailable | Downloadable | Downloading | Available

text \<open>
  The browser's Summarizer API, as the service sees it: whether \<^verbatim>\<open>Summarizer\<close> is a
  property of \<^verbatim>\<open>self\<close>, and how each promise of the API settles (\<open>Inl\<close>: rejected).
\<close>

record SummarizerAPI =
  summarizer_in_self :: bool
  availability_result :: "js_error + availability"
  create_result :: "SummarizerOptions \<Rightarrow> js_error + unit"
  ready_result :: "js_error + unit"
  summarize_result :: "string \<Rightarrow> string option \<Rightarrow> js_error + string"

text \<open>
  The state of the background context: the browser's storage, the fields of the
  \<^verbatim>\<open>SummarizerService\<close> singleton, the \<^verbatim>\<open>summarizationStatus\<close> map and the console.
  A promise that has been stored is kept with the way it settled.
\<close>

record Background =
  storage :: Storage
  summarizer :: "SummarizerOptions option"
  isInitialized :: bool
  initializationPromise :: "(js_error + unit) option"
  summarizationStatus :: "int \<rightharpoonup> SummarizationStatus"
  console :: "log_entry list"

definition new_background :: "Storage \<Rightarrow> Background" where
  "new_background st =
     \<lparr>storage = st, summarizer = None, isInitialized = False, initializationPromise = None,
      summarizationStatus = Map.empty, console = []\<rparr>"

definition console_log :: "string \<Rightarrow> Background \<Rightarrow> Background" where
  "console_log text bg = bg\<lparr>console := console bg @ [ConsoleLog text]\<rparr>"

definition console_error :: "string \<Rightarrow> js_error \<Rightarrow> Background \<Rightarrow> Background" where
  "console_error text e bg = bg\<lparr>console := console bg @ [ConsoleError text e]\<rparr>"

definition isSupported :: "SummarizerAPI \<Rightarrow> bool" where
  "isSupported api = summarizer_in_self api"

text \<open>The body of the \<^verbatim>\<open>try\<close> block of \<^verbatim>\<open>performInitialization\<close>.\<close>

definition performInitialization_try ::
  "SummarizerConfig \<Rightarrow> SummarizerAPI \<Rightarrow> Background \<Rightarrow> (js_error + unit) \<times> Background" where
  "performInitialization_try config api bg =
     (if \<not> summarizer_in_self api
      then (Inl (Error ''Summarizer API is not supported in this browser''), bg)
      else case availability_result api of
        Inl e \<Rightarrow> (Inl e, bg)
      | Inr avail \<Rightarrow>
          if avail = Unavailable then (Inl (Error ''Summarizer API is not available''), bg)
          else
            let opts = \<lparr>option_type = or_else (config_type config) KeyPoints,
                        option_format = or_else (config_format config) Markdown,
                        option_length = or_else (config_length config) Medium,
                        option_sharedContext = config_sharedContext config\<rparr>
            in case create_result api opts of
                 Inl e \<Rightarrow> (Inl e, bg)
               | Inr u \<Rightarrow>
                   let bg1 = bg\<lparr>summarizer := Some opts\<rparr>
                   in case ready_result api of
                        Inl e \<Rightarrow> (Inl e, bg1)
                      | Inr u \<Rightarrow>
                          (Inr (),
                           console_log ''Summarizer initialized successfully''
                             (bg1\<lparr>isInitialized := True\<rparr>)))"

text \<open>\<^verbatim>\<open>catch (error) { console.error(...); throw error; }\<close>\<close>

definition performInitialization ::
  "SummarizerConfig \<Rightarrow> SummarizerAPI \<Rightarrow> Background \<Rightarrow> (js_error + unit) \<times> Background" where
  "performInitialization config api bg =
     (case performInitialization_try config api bg of
        (Inl e, bg') \<Rightarrow> (Inl e, console_error ''Failed to initialize summarizer:'' e bg')
      | (Inr u, bg') \<Rightarrow> (Inr u, bg'))"

definition initialize ::
  "SummarizerConfig \<Rightarrow> SummarizerAPI \<Rightarrow> Background \<Rightarrow> (js_error + unit) \<times> Background" where
  "initialize config api bg =
     (if isInitialized bg then (Inr (), bg)
      else case initializationPromise bg of
        Some settled \<Rightarrow> (settled, bg)
      | None \<Rightarrow>
          (case performInitialization config api bg of
             (settled, bg') \<Rightarrow> (settled, bg'\<lparr>initializationPromise := Some settled\<rparr>)))"

definition summarize ::
  "string \<Rightarrow> string option \<Rightarrow> SummarizerAPI \<Rightarrow> Background \<Rightarrow> (js_error + string) \<times> Background"
  where
  "summarize text context api bg =
     (if \<not> isInitialized bg \<or> summarizer bg = None
      then (Inl (Error ''Summarizer not initialized''), bg)
      else case summarize_result api text context of
        Inr s \<Rightarrow> (Inr s, bg)
      | Inl e \<Rightarrow> (Inl e, console_error ''Failed to generate summary:'' e bg))"

definition determineSummaryType :: "string \<Rightarrow> string \<Rightarrow> summary_type" where
  "determineSummaryType content tab_url =
     (let urlLower = toLowerCase tab_url
      in if string_includes content ''<form'' \<or> string_includes content ''input''
            \<or> string_includes content ''textarea''
         then KeyPoints
         else if string_includes urlLower ''blog'' \<or> string_includes urlLower ''article''
            \<or> string_includes urlLower ''news''
         then Teaser
         else if string_includes urlLower ''docs'' \<or> string_includes urlLower ''drive''
            \<or> string_includes urlLower ''office''
         then Tldr
         else KeyPoints)"

text \<open>\<^verbatim>\<open>SummarizerService.generateTabSummary\<close>; \<open>now\<close> is the value of \<^verbatim>\<open>Date.now()\<close>.\<close>

definition service_generateTabSummary ::
  "int \<Rightarrow> string \<Rightarrow> string \<Rightarrow> string \<Rightarrow> int \<Rightarrow> SummarizerAPI \<Rightarrow> Background
     \<Rightarrow> (js_error + TabSummary) \<times> Background" where
  "service_generateTabSummary i tab_url tab_title content now api bg =
     (let summaryType = determineSummaryType content tab_url;
          reinit =
            (if summarizer bg \<noteq> None
             then initialize (empty_config\<lparr>config_type := Some summaryType,
                                config_length := Some Short\<rparr>) api bg
             else (Inr (), bg))
      in case reinit of
           (Inl e, bg1) \<Rightarrow> (Inl e, bg1)
         | (Inr u, bg1) \<Rightarrow>
             (case summarize content (Some (''This is content from: '' @ tab_title)) api bg1 of
                (Inl e, bg2) \<Rightarrow> (Inl e, bg2)
              | (Inr text, bg2) \<Rightarrow>
                  (Inr \<lparr>summary_tabId = i, summary_url = tab_url, summary_title = tab_title,
                        summary_text = text, summary_kind = summaryType, summary_len = Short,
                        timestamp = now\<rparr>, bg2)))"

text \<open>
  \<^verbatim>\<open>generateTabSummary\<close> of the background script: the \<^verbatim>\<open>try\<close> block, then the whole
  function with its \<^verbatim>\<open>catch\<close> block. The function returns nothing; \<open>Inr ()\<close> is a normal
  return and \<open>Inl\<close> would be an error that leaves the function.
\<close>

definition generateTabSummary_try ::
  "int \<Rightarrow> string \<Rightarrow> string \<Rightarrow> string \<Rightarrow> int \<Rightarrow> SummarizerAPI \<Rightarrow> Background
     \<Rightarrow> (js_error + unit) \<times> Background" where
  "generateTabSummary_try i tab_url tab_title content now api bg =
     (let bg0 = bg\<lparr>summarizationStatus := (summarizationStatus bg)
                  (i \<mapsto> \<lparr>isProcessing = True, lastAttempt = now, errorCount = 0\<rparr>)\<rparr>
      in case initialize empty_config api bg0 of
           (Inl e, bg1) \<Rightarrow> (Inl e, bg1)
         | (Inr u, bg1) \<Rightarrow>
             (case service_generateTabSummary i tab_url tab_title content now api bg1 of
                (Inl e, bg2) \<Rightarrow> (Inl e, bg2)
              | (Inr s, bg2) \<Rightarrow>
                  let bg3 = bg2\<lparr>storage := updateTabSummary i s now (storage bg2)\<rparr>;
                      bg4 = console_log (''Generated summary for tab '' @ number_to_string i
                                           @ '': '' @ tab_title) bg3
                  in (Inr (),
                      bg4\<lparr>summarizationStatus := (summarizationStatus bg4)
                        (i \<mapsto> \<lparr>isProcessing = False, lastAttempt = now,
                                 errorCount = 0\<rparr>)\<rparr>)))"

definition generateTabSummary ::
  "int \<Rightarrow> string \<Rightarrow> string \<Rightarrow> string \<Rightarrow> int \<Rightarrow> SummarizerAPI \<Rightarrow> Background
     \<Rightarrow> (js_error + unit) \<times> Background" where
  "generateTabSummary i tab_url tab_title content now api bg =
     (case generateTabSummary_try i tab_url tab_title content now api bg of
        (Inr u, bg') \<Rightarrow> (Inr (), bg')
      | (Inl e, bg') \<Rightarrow>
          let bg1 = console_error ''Failed to generate summary for tab:'' e bg'
          in (Inr (),
              case summarizationStatus bg1 i of
                Some status \<Rightarrow>
                  bg1\<lparr>summarizationStatus := (summarizationStatus bg1)
                    (i \<mapsto> status\<lparr>isProcessing := False,
                                    errorCount := errorCount status + 1\<rparr>)\<rparr>
              | None \<Rightarrow> bg1))"

text \<open>
  \<^verbatim>\<open>shouldSummarizeTab\<close>. \<open>url_hostname\<close> is \<^verbatim>\<open>new URL(url).hostname\<close>, which throws
  on a string that is not a URL (\<open>None\<close>).
\<close>

definition shouldSummarizeTab ::
  "SummarizerAPI \<Rightarrow> (string \<Rightarrow> string option) \<Rightarrow> Background \<Rightarrow> int \<Rightarrow> string \<Rightarrow> string
     \<Rightarrow> js_error + bool" where
  "shouldSummarizeTab api url_hostname bg i tab_url content =
     (let aiEnabled = isAIFeaturesEnabled (storage bg)
      in if \<not> aiEnabled then Inr False
         else if \<not> isSupported api then Inr False
         else if (case summarizationStatus bg i of
                    Some status \<Rightarrow> isProcessing status | None \<Rightarrow> False)
         then Inr False
         else if length content < 200 then Inr False
         else
           let sites = getProtectedSites (storage bg)
           in case url_hostname tab_url of
                None \<Rightarrow> Inl (Error ''Invalid URL'')
              | Some hostname \<Rightarrow>
                  if array_includes sites hostname then Inr True
                  else if \<not> isAutoSummarizeEnabled (storage bg) then Inr False
                  else
                    let urlLower = toLowerCase tab_url
                    in if string_includes urlLower ''blog''
                          \<or> string_includes urlLower ''article''
                          \<or> string_includes urlLower ''news''
                          \<or> string_includes urlLower ''docs''
                       then Inr True
                       else Inr False)"

text \<open>
  The \<^verbatim>\<open>GET_PROTECTION_STATUS\<close> case of the \<^verbatim>\<open>onMessage\<close> listener. The listener
  returns without an answer when the sender has no tab or the tab's id is falsy;
  otherwise it reads the key \<^verbatim>\<open>protectedSites\<close> and answers.
\<close>

record ProtectionResponse =
  isProtected :: bool

definition onMessage_GET_PROTECTION_STATUS ::
  "int option \<Rightarrow> string \<Rightarrow> Storage \<Rightarrow> ProtectionResponse option" where
  "onMessage_GET_PROTECTION_STATUS sender_tab_id hostname st =
     (case sender_tab_id of
        None \<Rightarrow> None
      | Some i \<Rightarrow>
          if i = 0 then None
          else Some \<lparr>isProtected =
                 array_includes (or_else (sync_protectedSites st) []) hostname\<rparr>)"


subsection \<open>Numbers\<close>

text \<open>
  The Numbers the content script computes with are IEEE 754 doubles. A finite double
  is the rational it denotes; \<open>round_double\<close> rounds a non-negative rational to the
  nearest double (53 significant bits, ties to even), which is what a division or a
  multiplication of doubles returns in the normal range.
\<close>

datatype number = NaN | PosInfinity | Finite rat

definition round_half_even :: "rat \<Rightarrow> int" where
  "round_half_even x =
     (let f = \<lfloor>x\<rfloor>; d = x - of_int f
      in if d < 1 / 2 then f else if 1 / 2 < d then f + 1 else if even f then f else f + 1)"

text \<open>The \<open>e\<close> with \<open>2 powi e \<le> q < 2 powi (e + 1)\<close>, for \<open>0 < q\<close>.\<close>

definition binary_exponent :: "rat \<Rightarrow> int" where
  "binary_exponent q =
     (let (a, b) = quotient_of q;
          k = bitlen a - bitlen b
      in if 2 powi k \<le> q then k else k - 1)"

definition round_double :: "rat \<Rightarrow> rat" where
  "round_double q =
     (if q \<le> 0 then 0
      else let e = binary_exponent q; ulp = 2 powi (e - 52)
           in of_int (round_half_even (q / ulp)) * ulp)"

text \<open>\<^verbatim>\<open>a.length / b.length\<close>: the quotient of two array lengths.\<close>

definition length_quotient :: "nat \<Rightarrow> nat \<Rightarrow> number" where
  "length_quotient a b =
     (if b = 0 then (if a = 0 then NaN else PosInfinity)
      else Finite (round_double (of_nat a / of_nat b)))"

text \<open>\<^verbatim>\<open>x * 100\<close>, for \<open>x\<close> not negative.\<close>

definition times_100 :: "number \<Rightarrow> number" where
  "times_100 x =
     (case x of NaN \<Rightarrow> NaN | PosInfinity \<Rightarrow> PosInfinity
      | Finite q \<Rightarrow> Finite (round_double (q * 100)))"

text \<open>\<^verbatim>\<open>Math.round\<close>: the nearest integer, a tie going up.\<close>

definition math_round :: "number \<Rightarrow> number" where
  "math_round x =
     (case x of NaN \<Rightarrow> NaN | PosInfinity \<Rightarrow> PosInfinity
      | Finite q \<Rightarrow> Finite (of_int \<lfloor>q + 1 / 2\<rfloor>))"

text \<open>\<^verbatim>\<open>x >= c\<close> and \<^verbatim>\<open>x > c\<close> for a finite constant: false of \<^verbatim>\<open>NaN\<close>.\<close>

definition number_ge :: "number \<Rightarrow> rat \<Rightarrow> bool" where
  "number_ge x c = (case x of NaN \<Rightarrow> False | PosInfinity \<Rightarrow> True | Finite q \<Rightarrow> c \<le> q)"

definition number_gt :: "number \<Rightarrow> rat \<Rightarrow> bool" where
  "number_gt x c = (case x of NaN \<Rightarrow> False | PosInfinity \<Rightarrow> True | Finite q \<Rightarrow> c < q)"

subsection \<open>The page (\<^verbatim>\<open>content.ts\<close>)\<close>

text \<open>
  An element of the page, with what the script reads of it: its tag (the local name, in
  lower case; \<^verbatim>\<open>tagName\<close> is its upper-case form), its attributes, its classes and the
  value of its \<^verbatim>\<open>type\<close> property. The document is the list of its elements in document
  order and the length of the text of its body.
\<close>

record Element =
  tag :: string
  attributes :: "(string \<times> string) list"
  classList :: "string list"
  type_property :: string

record Document =
  elements :: "Element list"
  body_text_length :: nat

definition hasAttribute :: "Element \<Rightarrow> string \<Rightarrow> bool" where
  "hasAttribute e a = (map_of (attributes e) a \<noteq> None)"

definition getAttribute :: "Element \<Rightarrow> string \<Rightarrow> string option" where
  "getAttribute e a = map_of (attributes e) a"

text \<open>
  The selectors the script uses are comma-separated lists of simple selectors: a tag,
  a class, the presence of an attribute, an attribute with a value.
\<close>

datatype selector = TagSel string | ClassSel string | AttrSel string | AttrEqSel string string

fun matches :: "Element \<Rightarrow> selector \<Rightarrow> bool" where
  "matches e (TagSel t) = (tag e = t)"
| "matches e (ClassSel c) = array_includes (classList e) c"
| "matches e (AttrSel a) = hasAttribute e a"
| "matches e (AttrEqSel a v) = (getAttribute e a = Some v)"

definition querySelectorAll :: "Document \<Rightarrow> selector list \<Rightarrow> Element list" where
  "querySelectorAll doc sels = filter (\<lambda>e. list_ex (matches e) sels) (elements doc)"

definition querySelector :: "Document \<Rightarrow> selector list \<Rightarrow> Element option" where
  "querySelector doc sels = find (\<lambda>e. list_ex (matches e) sels) (elements doc)"

datatype content_type = FormContent | ArticleContent | DocumentContent | GeneralContent

datatype level = LevelLow | LevelMedium | LevelHigh

record ContentAnalysis =
  contentType :: content_type
  complexity :: level
  estimatedTime :: nat
  keyFields :: "string list"
  riskLevel :: level

definition is_required :: "Element \<Rightarrow> bool" where
  "is_required input =
     (hasAttribute input ''required'' \<or> getAttribute input ''aria-required'' = Some ''true'')"

definition performContentAnalysis :: "Document \<Rightarrow> ContentAnalysis" where
  "performContentAnalysis doc =
     (let form_list = querySelectorAll doc [TagSel ''form''];
          inputs = querySelectorAll doc [TagSel ''input'', TagSel ''textarea'', TagSel ''select''];
          article_list =
            querySelectorAll doc [TagSel ''article'', AttrEqSel ''role'' ''main'', TagSel ''main'']
      in if length form_list > 0 then
           let requiredFields = filter is_required inputs;
               textFields =
                 filter (\<lambda>input. tag input = ''textarea'' \<or> type_property input = ''text''
                           \<or> type_property input = ''email'' \<or> type_property input = ''url'')
                   inputs
           in \<lparr>contentType = FormContent,
               complexity = (if length form_list > 2 then LevelHigh
                             else if length form_list > 1 then LevelMedium else LevelLow),
               estimatedTime =
                 max 1 ((length requiredFields * 2 + length textFields * 3 + 1) div 2),
               keyFields =
                 take 5
                   (map (\<lambda>input. string_or (getAttribute input ''name'')
                                    (string_or (getAttribute input ''id'') ''unnamed''))
                      (filter (\<lambda>input. hasAttribute input ''required''
                                 \<or> tag input = ''textarea'') inputs)),
               riskLevel = (if length requiredFields > 5 then LevelHigh
                            else if length requiredFields > 2 then LevelMedium else LevelLow)\<rparr>
         else if length article_list > 0
                 \<or> querySelector doc [TagSel ''article'', ClassSel ''post'', ClassSel ''entry'']
                      \<noteq> None
         then \<lparr>contentType = ArticleContent, complexity = LevelMedium,
               estimatedTime = body_text_length doc, keyFields = [], riskLevel = LevelLow\<rparr>
         else if querySelector doc
                   [ClassSel ''document'', ClassSel ''editor'', AttrSel ''contenteditable'']
                   \<noteq> None
         then \<lparr>contentType = DocumentContent, complexity = LevelHigh,
               estimatedTime = 10, keyFields = [], riskLevel = LevelMedium\<rparr>
         else \<lparr>contentType = GeneralContent, complexity = LevelLow,
               estimatedTime = 0, keyFields = [], riskLevel = LevelLow\<rparr>)"

record FormField =
  field_name :: string
  field_type :: string
  field_value :: string
  required :: bool
  isModified :: bool

record FormDataInfo =
  formId :: string
  form_fields :: "FormField list"
  completionPercentage :: number
  lastModified :: int
  form_hasUnsavedChanges :: bool

text \<open>The global variables of the content script.\<close>

record Page =
  page_hasUnsavedChanges :: bool
  isSiteProtected :: bool
  currentFormData :: "FormDataInfo option"
  contentAnalysis :: "ContentAnalysis option"
  warningShown :: bool

definition initial_page :: Page where
  "initial_page =
     \<lparr>page_hasUnsavedChanges = False, isSiteProtected = False, currentFormData = None,
      contentAnalysis = None, warningShown = False\<rparr>"

text \<open>
  \<^verbatim>\<open>checkProtectionStatus\<close>: \<open>reply\<close> is how \<^verbatim>\<open>chrome.runtime.sendMessage\<close> settles, an
  error, no response or the background script's response.
\<close>

definition checkProtectionStatus :: "js_error + ProtectionResponse option \<Rightarrow> Page \<Rightarrow> Page" where
  "checkProtectionStatus reply page =
     (case reply of
        Inl e \<Rightarrow> page
      | Inr None \<Rightarrow> page
      | Inr (Some response) \<Rightarrow>
          if isProtected response then page\<lparr>isSiteProtected := True\<rparr> else page)"

datatype runtime_message = UNSAVED_CHANGES_DETECTED | CHANGES_SAVED

text \<open>
  What \<^verbatim>\<open>handleFieldChange\<close> leaves behind: the form's record, the messages sent to the
  background script, and whether the completion feedback was shown.
\<close>

record FieldChangeResult =
  changed_form :: FormDataInfo
  sent_messages :: "runtime_message list"
  feedback_shown :: bool

text \<open>
  \<^verbatim>\<open>handleFieldChange(formData, fieldData, field)\<close>. The listener that calls it was made for
  the \<open>idx\<close>-th field of \<open>formData\<close>, so \<open>fieldData\<close> is the object
  \<open>form_fields formData ! idx\<close>; \<open>newValue\<close> is \<^verbatim>\<open>field.value || ''\<close> and \<open>now\<close> is
  \<^verbatim>\<open>Date.now()\<close>.
\<close>

definition handleFieldChange ::
  "FormDataInfo \<Rightarrow> nat \<Rightarrow> string \<Rightarrow> int \<Rightarrow> bool \<Rightarrow> FieldChangeResult" where
  "handleFieldChange formData idx newValue now warning_shown =
     (let fieldData = form_fields formData ! idx;
          hasChanged = (field_value fieldData \<noteq> newValue)
      in if hasChanged then
           let fieldData' = fieldData\<lparr>field_value := newValue, isModified := True\<rparr>;
               fields' = (form_fields formData)[idx := fieldData'];
               requiredFields = filter required fields';
               completedFields = filter (\<lambda>f. trim (field_value f) \<noteq> '''') requiredFields;
               percentage =
                 math_round
                   (times_100 (length_quotient (length completedFields) (length requiredFields)));
               formData' = formData\<lparr>form_fields := fields', lastModified := now,
                             form_hasUnsavedChanges := True,
                             completionPercentage := percentage\<rparr>
           in \<lparr>changed_form = formData',
               sent_messages = [UNSAVED_CHANGES_DETECTED],
               feedback_shown = (number_ge percentage 80 \<and> \<not> warning_shown)\<rparr>
         else \<lparr>changed_form = formData, sent_messages = [], feedback_shown = False\<rparr>)"

definition handleFormSubmit :: "FormDataInfo \<Rightarrow> FormDataInfo" where
  "handleFormSubmit formData =
     formData\<lparr>form_hasUnsavedChanges := False, completionPercentage := Finite 100\<rparr>"

text \<open>
  The three warning texts of the \<^verbatim>\<open>beforeunload\<close> listener, with the values their
  templates interpolate.
\<close>

datatype warning_message =
    UnsavedChangesWarning
  | FormProgressWarning number
  | UnsavedWorkWarning content_type nat

record UnloadOutcome =
  defaultPrevented :: bool
  returnValue :: "warning_message option"

definition beforeunload :: "Page \<Rightarrow> UnloadOutcome" where
  "beforeunload page =
     (if isSiteProtected page
         \<and> (page_hasUnsavedChanges page
              \<or> (case currentFormData page of
                    None \<Rightarrow> False | Some formData \<Rightarrow> form_hasUnsavedChanges formData))
      then
        let warningMessage =
              (case currentFormData page of
                 None \<Rightarrow> UnsavedChangesWarning
               | Some formData \<Rightarrow>
                   if number_gt (completionPercentage formData) 0
                   then FormProgressWarning (completionPercentage formData)
                   else (case contentAnalysis page of
                           Some analysis \<Rightarrow>
                             UnsavedWorkWarning (contentType analysis) (estimatedTime analysis)
                         | None \<Rightarrow> UnsavedChangesWarning))
        in \<lparr>defaultPrevented = True, returnValue = Some warningMessage\<rparr>
      else \<lparr>defaultPrevented = False, returnValue = None\<rparr>)"


subsection \<open>The popup (\<^verbatim>\<open>popup.ts\<close>)\<close>

text \<open>
  The variables of the popup script (\<^verbatim>\<open>currentHostname\<close>, \<^verbatim>\<open>protectedSites\<close>,
  \<^verbatim>\<open>settings\<close>), what it shows (whether the toggle button reads
  \<^verbatim>\<open>Unprotect this Site\<close>, and the \<^verbatim>\<open>data-action\<close> of each button rendered in the
  recommendations), and the browser's storage.
\<close>

record Popup =
  currentHostname :: string
  popup_protectedSites :: "string list"
  popup_settings :: "ExtensionSettings option"
  toggle_reads_unprotect :: bool
  rendered_actions :: "string list"
  popup_storage :: Storage

definition updateButtonStatus :: "Popup \<Rightarrow> Popup" where
  "updateButtonStatus p =
     (if array_includes (popup_protectedSites p) (currentHostname p)
      then p\<lparr>toggle_reads_unprotect := True\<rparr>
      else p\<lparr>toggle_reads_unprotect := False\<rparr>)"

definition generateRecommendations :: "Popup \<Rightarrow> Popup" where
  "generateRecommendations p =
     (let list1 =
            (if \<not> array_includes (popup_protectedSites p) (currentHostname p)
             then [''Protect Site''] else []);
          list2 =
            (case popup_settings p of
               Some settings \<Rightarrow>
                 if \<not> aiFeaturesEnabled settings then list1 @ [''Enable AI''] else list1
             | None \<Rightarrow> list1)
      in p\<lparr>rendered_actions := list2\<rparr>)"

definition loadSettings :: "Popup \<Rightarrow> Popup" where
  "loadSettings p =
     p\<lparr>popup_settings :=
         Some (or_else (sync_settings (popup_storage p)) getDefaultSettings)\<rparr>"

definition loadProtectedSites :: "Popup \<Rightarrow> Popup" where
  "loadProtectedSites p =
     updateButtonStatus
       (p\<lparr>popup_protectedSites := or_else (sync_protectedSites (popup_storage p)) []\<rparr>)"

text \<open>\<^verbatim>\<open>initializePopup\<close> for an active tab whose URL has the host name \<open>hostname\<close>.\<close>

definition initializePopup :: "string \<Rightarrow> Storage \<Rightarrow> Popup" where
  "initializePopup hostname st =
     generateRecommendations
       (loadProtectedSites
          (loadSettings
             \<lparr>currentHostname = hostname, popup_protectedSites = [], popup_settings = None,
              toggle_reads_unprotect = False, rendered_actions = [], popup_storage = st\<rparr>))"

text \<open>
  \<^verbatim>\<open>chrome.storage.sync.set\<close> can be rejected (the store has write quotas); \<open>accepted\<close>
  says whether the write of a handler goes through. A rejected write leaves the store as
  it was, and the handler continues in its \<^verbatim>\<open>catch\<close> block, or ends there when it has
  none.
\<close>

definition toggle_click :: "bool \<Rightarrow> Popup \<Rightarrow> Popup" where
  "toggle_click accepted p =
     (let isProtected = array_includes (popup_protectedSites p) (currentHostname p);
          sites =
            (if isProtected
             then filter (\<lambda>site. site \<noteq> currentHostname p) (popup_protectedSites p)
             else popup_protectedSites p @ [currentHostname p]);
          p1 = p\<lparr>popup_protectedSites := sites\<rparr>
      in if accepted
         then generateRecommendations
                (updateButtonStatus
                   (p1\<lparr>popup_storage := (popup_storage p1)\<lparr>sync_protectedSites := Some sites\<rparr>\<rparr>))
         else p1)"

definition updateSetting_aiFeaturesEnabled :: "bool \<Rightarrow> bool \<Rightarrow> Popup \<Rightarrow> Popup" where
  "updateSetting_aiFeaturesEnabled val accepted p =
     (case popup_settings p of
        None \<Rightarrow> p
      | Some settings \<Rightarrow>
          let settings' = settings\<lparr>aiFeaturesEnabled := val\<rparr>;
              p1 = p\<lparr>popup_settings := Some settings'\<rparr>
          in if accepted
             then p1\<lparr>popup_storage := (popup_storage p1)\<lparr>sync_settings := Some settings'\<rparr>\<rparr>
             else p1)"

text \<open>
  The click listener of the recommendations, for a click on a button whose
  \<^verbatim>\<open>data-action\<close> is \<open>action\<close>.
\<close>

definition recommendations_click :: "string \<Rightarrow> bool \<Rightarrow> Popup \<Rightarrow> Popup" where
  "recommendations_click action accepted p =
     (if action = ''Protect Site'' then
        let sites = popup_protectedSites p @ [currentHostname p];
            p1 = p\<lparr>popup_protectedSites := sites\<rparr>
        in if accepted
           then generateRecommendations
                  (updateButtonStatus
                     (p1\<lparr>popup_storage :=
                           (popup_storage p1)\<lparr>sync_protectedSites := Some sites\<rparr>\<rparr>))
           else p1
      else if action = ''Enable AI'' then
        generateRecommendations (updateSetting_aiFeaturesEnabled True accepted p)
      else p)"

text \<open>The user can only click a button that is shown.\<close>

definition user_clicks_recommendation :: "string \<Rightarrow> bool \<Rightarrow> Popup \<Rightarrow> Popup" where
  "user_clicks_recommendation action accepted p =
     (if array_includes (rendered_actions p) action
      then recommendations_click action accepted p else p)"


subsection \<open>Example values\<close>

definition example_tab :: TabData where
  "example_tab =
     \<lparr>tabId = 7, url = ''https://example.com/form'', title = ''Form'',
      hasUnsavedChanges = False, summary = None, lastUpdated = 1000,
      protectionLevel = ProtectionNone\<rparr>"

definition example_summary :: TabSummary where
  "example_summary =
     \<lparr>summary_tabId = 9, summary_url = ''https://example.com/'', summary_title = ''T'',
      summary_text = ''S'', summary_kind = KeyPoints, summary_len = Short,
      timestamp = 2000\<rparr>"

text \<open>
  A store with two old records: tab 7 has no unsaved changes, tab 8 has. Eight days
  are 691200000 milliseconds.
\<close>

definition example_store :: Storage where
  "example_store =
     saveTabData (example_tab\<lparr>tabId := 8, hasUnsavedChanges := True\<rparr>)
       (saveTabData example_tab empty_storage)"

definition example_now :: int where
  "example_now = 1000 + 691200000"

definition protected_storage :: Storage where
  "protected_storage = empty_storage\<lparr>sync_protectedSites := Some [''example.com'']\<rparr>"

definition example_api :: SummarizerAPI where
  "example_api =
     \<lparr>summarizer_in_self = True, availability_result = Inr Available,
      create_result = (\<lambda>opts. Inr ()), ready_result = Inr (),
      summarize_result = (\<lambda>text context. Inr ''a summary'')\<rparr>"

definition unsupported_api :: SummarizerAPI where
  "unsupported_api = example_api\<lparr>summarizer_in_self := False\<rparr>"

definition failing_api :: SummarizerAPI where
  "failing_api =
     example_api\<lparr>summarize_result := (\<lambda>text context. Inl (Error ''model crashed''))\<rparr>"

definition initialized_background :: Background where
  "initialized_background =
     snd (initialize empty_config example_api (new_background empty_storage))"

definition example_url :: string where
  "example_url = ''https://example.org/Blog/1''"

definition example_hostname :: "string \<Rightarrow> string option" where
  "example_hostname u = (if u = example_url then Some ''example.org'' else None)"

definition long_content :: string where
  "long_content = replicate 200 CHR ''x''"

definition form_element :: Element where
  "form_element = \<lparr>tag = ''form'', attributes = [], classList = [], type_property = ''''\<rparr>"

definition required_input :: Element where
  "required_input =
     \<lparr>tag = ''input'', attributes = [(''required'', ''''), (''name'', ''email'')],
      classList = [], type_property = ''email''\<rparr>"

definition example_document :: Document where
  "example_document =
     \<lparr>elements = [form_element, required_input, required_input, required_input, form_element],
      body_text_length = 120\<rparr>"

definition optional_field :: FormField where
  "optional_field =
     \<lparr>field_name = ''nickname'', field_type = ''text'', field_value = '''',
      required = False, isModified = False\<rparr>"

text \<open>A form whose only field is not required.\<close>

definition optional_form :: FormDataInfo where
  "optional_form =
     \<lparr>formId = ''form_0'', form_fields = [optional_field], completionPercentage = Finite 0,
      lastModified = 0, form_hasUnsavedChanges = False\<rparr>"

definition unprotected_page :: Page where
  "unprotected_page =
     initial_page\<lparr>page_hasUnsavedChanges := True,
       currentFormData := Some (optional_form\<lparr>form_hasUnsavedChanges := True\<rparr>)\<rparr>"


section \<open>Properties\<close>

subsection \<open>Strings and keys\<close>

lemma startsWith_iff: "startsWith s p \<longleftrightarrow> (\<exists>q. s = p @ q)"
  by (induction s p rule: startsWith.induct) auto

lemma string_includes_iff: "string_includes s sub \<longleftrightarrow> (\<exists>p q. s = p @ sub @ q)"
proof (induction s)
  case Nil
  then show ?case by auto
next
  case (Cons c cs)
  show ?case
  proof
    assume "string_includes (c # cs) sub"
    then consider "startsWith (c # cs) sub" | "string_includes cs sub" by auto
    then show "\<exists>p q. c # cs = p @ sub @ q"
    proof cases
      case 1
      then obtain q where "c # cs = sub @ q" by (auto simp: startsWith_iff)
      then have "c # cs = [] @ sub @ q" by simp
      then show ?thesis by blast
    next
      case 2
      with Cons.IH obtain p q where "cs = p @ sub @ q" by auto
      then have "c # cs = (c # p) @ sub @ q" by simp
      then show ?thesis by blast
    qed
  next
    assume "\<exists>p q. c # cs = p @ sub @ q"
    then obtain p q where e: "c # cs = p @ sub @ q" by auto
    show "string_includes (c # cs) sub"
    proof (cases p)
      case Nil
      with e have "startsWith (c # cs) sub" by (auto simp: startsWith_iff)
      then show ?thesis by simp
    next
      case (Cons a p')
      with e have "cs = p' @ sub @ q" by simp
      with Cons.IH have "string_includes cs sub" by blast
      then show ?thesis by simp
    qed
  qed
qed

lemma digit_char_inj: "a < 10 \<Longrightarrow> b < 10 \<Longrightarrow> digit_char a = digit_char b \<Longrightarrow> a = b"
proof -
  assume a: "a < 10" and b: "b < 10" and e: "digit_char a = digit_char b"
  have A: "a \<in> {0,1,2,3,4,5,6,7,8,9}" using a by auto
  have B: "b \<in> {0,1,2,3,4,5,6,7,8,9}" using b by auto
  show ?thesis using A B e by (auto simp: digit_char_def)
qed

lemma digit_char_not_minus: "d < 10 \<Longrightarrow> digit_char d \<noteq> CHR ''-''"
proof -
  assume a: "d < 10"
  have A: "d \<in> {0,1,2,3,4,5,6,7,8,9}" using a by auto
  show ?thesis using A by (auto simp: digit_char_def)
qed

lemma nat_to_string_nonempty: "nat_to_string n \<noteq> []"
  by (subst nat_to_string.simps) simp

lemma nat_to_string_inj: "nat_to_string n = nat_to_string m \<Longrightarrow> n = m"
proof (induction n arbitrary: m rule: nat_to_string.induct)
  case (1 n)
  show ?case
  proof (cases "n < 10")
    case True
    show ?thesis
    proof (cases "m < 10")
      case mt: True
      from "1.prems" True mt have "digit_char n = digit_char m"
        by (simp add: nat_to_string.simps [of n] nat_to_string.simps [of m])
      with True mt show ?thesis by (rule_tac digit_char_inj)
    next
      case mf: False
      from "1.prems" True mf have "[digit_char n] = nat_to_string (m div 10) @ [digit_char (m mod 10)]"
        by (simp add: nat_to_string.simps [of n] nat_to_string.simps [of m])
      then have "nat_to_string (m div 10) = []" by simp
      then show ?thesis using nat_to_string_nonempty by blast
    qed
  next
    case False
    show ?thesis
    proof (cases "m < 10")
      case mt: True
      from "1.prems" False mt have "nat_to_string (n div 10) @ [digit_char (n mod 10)] = [digit_char m]"
        by (simp add: nat_to_string.simps [of n] nat_to_string.simps [of m])
      then have "nat_to_string (n div 10) = []" by simp
      then show ?thesis using nat_to_string_nonempty by blast
    next
      case mf: False
      from "1.prems" False mf
      have e: "nat_to_string (n div 10) @ [digit_char (n mod 10)]
               = nat_to_string (m div 10) @ [digit_char (m mod 10)]"
        by (simp add: nat_to_string.simps [of n] nat_to_string.simps [of m])
      then have e1: "nat_to_string (n div 10) = nat_to_string (m div 10)"
        and e2: "digit_char (n mod 10) = digit_char (m mod 10)" by simp_all
      from "1.IH" [OF False e1] have d: "n div 10 = m div 10" .
      have r: "n mod 10 = m mod 10" by (rule digit_char_inj [OF _ _ e2]) simp_all
      from d r show ?thesis by (metis div_mult_mod_eq)
    qed
  qed
qed

lemma nat_to_string_hd: "hd (nat_to_string n) \<noteq> CHR ''-''"
proof (induction n rule: nat_to_string.induct)
  case (1 n)
  show ?case
  proof (cases "n < 10")
    case True
    then show ?thesis by (simp add: nat_to_string.simps [of n] digit_char_not_minus)
  next
    case False
    with "1.IH" show ?thesis
      by (simp add: nat_to_string.simps [of n] nat_to_string_nonempty)
  qed
qed

lemma number_to_string_inj: "number_to_string i = number_to_string j \<Longrightarrow> i = j"
proof -
  assume e: "number_to_string i = number_to_string j"
  have neg: "\<And>a b. CHR ''-'' # nat_to_string a \<noteq> nat_to_string b"
  proof
    fix a b assume "CHR ''-'' # nat_to_string a = nat_to_string b"
    then have "hd (nat_to_string b) = CHR ''-''" by (metis list.sel(1))
    then show False using nat_to_string_hd by blast
  qed
  show ?thesis
  proof (cases "i < 0")
    case True
    show ?thesis
    proof (cases "j < 0")
      case jt: True
      with True e have "nat (- i) = nat (- j)"
        by (simp add: number_to_string_def nat_to_string_inj)
      with True jt show ?thesis by simp
    next
      case jf: False
      with True e neg show ?thesis by (simp add: number_to_string_def)
    qed
  next
    case False
    show ?thesis
    proof (cases "j < 0")
      case jt: True
      with False e neg [of "nat (- j)" "nat i"] show ?thesis by (simp add: number_to_string_def)
    next
      case jf: False
      with False e have "nat i = nat j"
        by (simp add: number_to_string_def nat_to_string_inj)
      with False jf show ?thesis by simp
    qed
  qed
qed

lemma tab_key_inj: "tab_key i = tab_key j \<longleftrightarrow> i = j"
  by (auto simp: tab_key_def dest: number_to_string_inj)

lemma startsWith_append: "startsWith (p @ s) p"
  by (induction p) auto

lemma startsWith_tab_key: "startsWith (tab_key i) ''tab_''"
  unfolding tab_key_def by (rule startsWith_append)

subsection \<open>The tab records in \<^verbatim>\<open>chrome.storage.local\<close>\<close>

lemma getAllTabData_loop_filter:
  "getAllTabData_loop al acc = acc @ map snd (filter (\<lambda>kv. startsWith (fst kv) ''tab_'') al)"
  by (induction al acc rule: getAllTabData_loop.induct) auto

lemma store_ok_keys: "store_ok al \<Longrightarrow> (k, t) \<in> set al \<Longrightarrow> k = tab_key (tabId t)"
proof (induction al)
  case Nil then show ?case by simp
next
  case (Cons a al)
  then show ?case by (auto simp: store_ok_def)
qed

lemma getAllTabData_all: "store_ok (local_area st) \<Longrightarrow> getAllTabData st = map snd (local_area st)"
proof -
  assume ok: "store_ok (local_area st)"
  have "filter (\<lambda>kv. startsWith (fst kv) ''tab_'') (local_area st) = local_area st"
  proof -
    have "\<And>kv. kv \<in> set (local_area st) \<Longrightarrow> startsWith (fst kv) ''tab_''"
    proof -
      fix kv assume m: "kv \<in> set (local_area st)"
      then have "(fst kv, snd kv) \<in> set (local_area st)" by simp
      from store_ok_keys [OF ok this] show "startsWith (fst kv) ''tab_''"
        by (simp add: startsWith_tab_key)
    qed
    then show ?thesis by (simp add: filter_id_conv)
  qed
  then show ?thesis by (simp add: getAllTabData_def getAllTabData_loop_filter)
qed

lemma store_ok_iff:
  "store_ok al \<longleftrightarrow>
     distinct (map fst al) \<and> (\<forall>kv \<in> set al. fst kv = tab_key (tabId (snd kv)))"
  by (simp add: store_ok_def)

lemma set_update_cases:
  "kv \<in> set (AList.update k v al) \<Longrightarrow> kv \<in> set al \<or> kv = (k, v)"
  by (induction al) (auto split: if_splits)

lemma store_ok_update: "store_ok al \<Longrightarrow> store_ok (AList.update (tab_key (tabId t)) t al)"
proof -
  assume ok: "store_ok al"
  have d: "distinct (map fst (AList.update (tab_key (tabId t)) t al))"
    using ok by (simp add: store_ok_iff AList.distinct_update)
  have k: "\<forall>kv \<in> set (AList.update (tab_key (tabId t)) t al). fst kv = tab_key (tabId (snd kv))"
  proof
    fix kv assume "kv \<in> set (AList.update (tab_key (tabId t)) t al)"
    then have "kv \<in> set al \<or> kv = (tab_key (tabId t), t)" by (rule set_update_cases)
    then show "fst kv = tab_key (tabId (snd kv))"
      using ok by (auto simp: store_ok_iff)
  qed
  from d k show ?thesis by (simp add: store_ok_iff)
qed

lemma store_ok_delete: "store_ok al \<Longrightarrow> store_ok (AList.delete k al)"
proof -
  assume ok: "store_ok al"
  have d: "distinct (map fst (AList.delete k al))"
    using ok by (simp only: store_ok_iff AList.distinct_delete)
  have "set (AList.delete k al) \<subseteq> set al" by (auto simp: AList.delete_eq)
  with ok have "\<forall>kv \<in> set (AList.delete k al). fst kv = tab_key (tabId (snd kv))"
    unfolding store_ok_iff by blast
  with d show ?thesis by (simp only: store_ok_iff)
qed

lemma store_ok_distinct_ids: "store_ok al \<Longrightarrow> distinct (map (\<lambda>kv. tabId (snd kv)) al)"
proof -
  assume ok: "store_ok al"
  then have "distinct (map (\<lambda>kv. tab_key (tabId (snd kv))) al)"
    unfolding store_ok_def by metis
  then have "distinct (map tab_key (map (\<lambda>kv. tabId (snd kv)) al))"
    by (simp add: comp_def)
  then show ?thesis by (simp only: distinct_map)
qed

lemma cleanup_loop_local:
  "local_area (cleanup_loop ts st) =
     filter (\<lambda>kv. fst kv \<notin> set (map (\<lambda>t. tab_key (tabId t)) ts)) (local_area st)"
  by (induction ts st rule: cleanup_loop.induct)
     (auto simp: removeTabData_def AList.delete_eq split_def intro: filter_cong)

lemma cleanup_loop_sync:
  "sync_settings (cleanup_loop ts st) = sync_settings st \<and>
   sync_protectedSites (cleanup_loop ts st) = sync_protectedSites st"
  by (induction ts st rule: cleanup_loop.induct) (auto simp: removeTabData_def)


lemma store_ok_empty: "store_ok (local_area empty_storage)"
  by (simp add: empty_storage_def store_ok_def)

lemma store_ok_saveTabData:
  "store_ok (local_area st) \<Longrightarrow> store_ok (local_area (saveTabData t st))"
  by (simp add: saveTabData_def store_ok_update)

lemma store_ok_removeTabData:
  "store_ok (local_area st) \<Longrightarrow> store_ok (local_area (removeTabData i st))"
  by (simp add: removeTabData_def store_ok_delete)

lemma store_ok_updateTabSummary:
  assumes ok: "store_ok (local_area st)"
  shows "store_ok (local_area (updateTabSummary i s now st))"
proof (cases "getTabData i st")
  case None
  with ok show ?thesis by (simp add: updateTabSummary_def)
next
  case (Some t)
  then have "(tab_key i, t) \<in> set (local_area st)"
    by (simp add: getTabData_def map_of_SomeD)
  with ok have "tab_key i = tab_key (tabId t)"
    by (auto simp: store_ok_iff)
  then have "tabId t = i" by (simp add: tab_key_inj)
  with Some store_ok_update [OF ok, of "t\<lparr>summary := Some s, lastUpdated := now\<rparr>"]
  show ?thesis by (simp add: updateTabSummary_def saveTabData_def)
qed

lemma store_ok_cleanup_loop:
  "store_ok (local_area st) \<Longrightarrow> store_ok (local_area (cleanup_loop ts st))"
  by (induction ts st rule: cleanup_loop.induct) (simp_all add: store_ok_removeTabData)

lemma store_ok_cleanupOldSummaries:
  "store_ok (local_area st) \<Longrightarrow> store_ok (local_area (cleanupOldSummaries now st))"
  by (simp add: cleanupOldSummaries_def Let_def store_ok_cleanup_loop)

lemma example_store_ok: "store_ok (local_area example_store)"
  unfolding example_store_def
  by (intro store_ok_saveTabData store_ok_empty)

subsection \<open>Settings default to a fixed record\<close>

text \<open>
  C7. When no settings record has been saved, \<^verbatim>\<open>getSettings\<close> returns the default
  record (no protected site, AI features and auto-summarize on, summary types
  key-points / teaser / tldr / key-points, at most 5 summaries per tab, 7 days of
  retention), and \<^verbatim>\<open>isAIFeaturesEnabled\<close> and \<^verbatim>\<open>getProtectedSites\<close> return its values.
\<close>

theorem getSettings_default:
  assumes "sync_settings st = None"
  shows "getSettings st =
           \<lparr>protectedSites = [], aiFeaturesEnabled = True, autoSummarize = True,
            summaryTypes = \<lparr>forms = KeyPoints, articles = Teaser, documents = Tldr,
                            general = KeyPoints\<rparr>,
            maxSummariesPerTab = 5, summaryRetentionDays = 7\<rparr>
         \<and> isAIFeaturesEnabled st = True
         \<and> isAutoSummarizeEnabled st = True
         \<and> getProtectedSites st = []"
  using assms
  by (simp add: getSettings_def getDefaultSettings_def isAIFeaturesEnabled_def
      isAutoSummarizeEnabled_def getProtectedSites_def)

theorem getSettings_default_witness:
  "sync_settings empty_storage = None
   \<and> maxSummariesPerTab (getSettings empty_storage) = 5
   \<and> summaryRetentionDays (getSettings empty_storage) = 7
   \<and> isAIFeaturesEnabled empty_storage = True
   \<and> getProtectedSites empty_storage = []"
proof -
  have h: "sync_settings empty_storage = None"
    by (simp add: empty_storage_def)
  show ?thesis
    using h getSettings_default [OF h] by simp
qed

subsection \<open>Tab records are keyed by the tab identifier\<close>

text \<open>
  C9. After \<^verbatim>\<open>saveTabData(t)\<close>, \<^verbatim>\<open>getTabData(t.tabId)\<close> returns \<open>t\<close> and
  \<^verbatim>\<open>getTabData\<close> of any other identifier is unchanged; a second \<^verbatim>\<open>saveTabData\<close> for the
  same identifier overwrites the first; and in a store that the service has written,
  \<^verbatim>\<open>getAllTabData\<close> holds at most one record per identifier.
\<close>

theorem saveTabData_keyed:
  "getTabData (tabId t) (saveTabData t st) = Some t
   \<and> (i \<noteq> tabId t \<longrightarrow> getTabData i (saveTabData t st) = getTabData i st)
   \<and> (tabId t' = tabId t \<longrightarrow> saveTabData t' (saveTabData t st) = saveTabData t' st)
   \<and> (store_ok (local_area st) \<longrightarrow>
        store_ok (local_area (saveTabData t st))
        \<and> distinct (map tabId (getAllTabData (saveTabData t st))))"
proof -
  have a: "getTabData (tabId t) (saveTabData t st) = Some t"
    by (simp add: getTabData_def saveTabData_def AList.update_conv')
  have b: "i \<noteq> tabId t \<longrightarrow> getTabData i (saveTabData t st) = getTabData i st"
    by (simp add: getTabData_def saveTabData_def AList.update_conv' tab_key_inj)
  have c: "tabId t' = tabId t \<longrightarrow> saveTabData t' (saveTabData t st) = saveTabData t' st"
    by (simp add: saveTabData_def)
  have d: "store_ok (local_area st) \<longrightarrow>
        store_ok (local_area (saveTabData t st))
        \<and> distinct (map tabId (getAllTabData (saveTabData t st)))"
  proof
    assume ok: "store_ok (local_area st)"
    have ok': "store_ok (local_area (saveTabData t st))"
      using store_ok_update [OF ok] by (simp add: saveTabData_def)
    from store_ok_distinct_ids [OF ok'] getAllTabData_all [OF ok']
    show "store_ok (local_area (saveTabData t st))
        \<and> distinct (map tabId (getAllTabData (saveTabData t st)))"
      using ok' by (simp add: comp_def)
  qed
  from a b c d show ?thesis by blast
qed

theorem saveTabData_keyed_witness:
  "getTabData 7 (saveTabData example_tab empty_storage) = Some example_tab
   \<and> getTabData 8 (saveTabData example_tab empty_storage) = getTabData 8 empty_storage
   \<and> saveTabData (example_tab\<lparr>title := ''Other''\<rparr>) (saveTabData example_tab empty_storage)
       = saveTabData (example_tab\<lparr>title := ''Other''\<rparr>) empty_storage
   \<and> store_ok (local_area empty_storage)
   \<and> distinct (map tabId (getAllTabData (saveTabData example_tab empty_storage)))"
  using saveTabData_keyed [of example_tab empty_storage 8 "example_tab\<lparr>title := ''Other''\<rparr>"]
    store_ok_empty
  by (simp add: example_tab_def)

subsection \<open>Cleanup removes the old records without unsaved changes\<close>

lemma cleanup_removes:
  assumes ok: "store_ok al"
  shows "filter (\<lambda>kv. fst kv \<notin> set (map (\<lambda>t. tab_key (tabId t)) (filter P (map snd al)))) al
         = filter (\<lambda>kv. \<not> P (snd kv)) al"
proof (rule filter_cong [OF refl])
  fix kv assume m: "kv \<in> set al"
  have key: "fst kv = tab_key (tabId (snd kv))"
    using ok m by (simp add: store_ok_iff)
  show "(fst kv \<notin> set (map (\<lambda>t. tab_key (tabId t)) (filter P (map snd al)))) = (\<not> P (snd kv))"
  proof
    assume n: "fst kv \<notin> set (map (\<lambda>t. tab_key (tabId t)) (filter P (map snd al)))"
    show "\<not> P (snd kv)"
    proof
      assume "P (snd kv)"
      with m have "snd kv \<in> set (filter P (map snd al))" by simp
      then have "tab_key (tabId (snd kv)) \<in> set (map (\<lambda>t. tab_key (tabId t)) (filter P (map snd al)))"
        unfolding set_map by (rule imageI)
      with n key show False by simp
    qed
  next
    assume np: "\<not> P (snd kv)"
    show "fst kv \<notin> set (map (\<lambda>t. tab_key (tabId t)) (filter P (map snd al)))"
    proof
      assume "fst kv \<in> set (map (\<lambda>t. tab_key (tabId t)) (filter P (map snd al)))"
      then obtain kv' where m': "kv' \<in> set al" and p: "P (snd kv')"
        and e: "fst kv = tab_key (tabId (snd kv'))" by auto
      have "fst kv' = tab_key (tabId (snd kv'))"
        using ok m' by (simp add: store_ok_iff)
      with e have "fst kv' = fst kv" by simp
      moreover have "distinct (map fst al)" using ok by (simp add: store_ok_iff)
      ultimately have "kv' = kv" using m m' by (metis eq_key_imp_eq_value prod.collapse)
      with p np show False by simp
    qed
  qed
qed

text \<open>
  C10. In a store that the service has written, \<^verbatim>\<open>cleanupOldSummaries\<close> removes exactly
  the records whose \<^verbatim>\<open>lastUpdated\<close> is below \<^verbatim>\<open>now\<close> minus the retention days in
  milliseconds and whose \<^verbatim>\<open>hasUnsavedChanges\<close> is false: every other record stays, as it
  was and where it was, and the synced keys are not touched. \<^verbatim>\<open>updateTabSummary\<close> for an
  identifier with no stored record changes nothing.
\<close>

theorem cleanupOldSummaries_exact:
  assumes ok: "store_ok (local_area st)"
  shows "local_area (cleanupOldSummaries now st) =
           filter (\<lambda>kv. \<not> (lastUpdated (snd kv) <
                              now - summaryRetentionDays (getSettings st) * 24 * 60 * 60 * 1000
                            \<and> \<not> hasUnsavedChanges (snd kv)))
             (local_area st)
         \<and> sync_settings (cleanupOldSummaries now st) = sync_settings st
         \<and> sync_protectedSites (cleanupOldSummaries now st) = sync_protectedSites st
         \<and> (getTabData i st = None \<longrightarrow> updateTabSummary i s now st = st)"
proof -
  let ?P = "\<lambda>tab. lastUpdated tab < now - summaryRetentionDays (getSettings st) * 24 * 60 * 60 * 1000
                 \<and> \<not> hasUnsavedChanges tab"
  have c: "cleanupOldSummaries now st = cleanup_loop (filter ?P (map snd (local_area st))) st"
    by (simp add: cleanupOldSummaries_def Let_def getAllTabData_all [OF ok])
  have l: "local_area (cleanupOldSummaries now st) = filter (\<lambda>kv. \<not> ?P (snd kv)) (local_area st)"
    unfolding c cleanup_loop_local by (rule cleanup_removes [OF ok])
  have s: "sync_settings (cleanupOldSummaries now st) = sync_settings st
         \<and> sync_protectedSites (cleanupOldSummaries now st) = sync_protectedSites st"
    unfolding c by (rule cleanup_loop_sync)
  have u: "getTabData i st = None \<longrightarrow> updateTabSummary i s now st = st"
    by (simp add: updateTabSummary_def)
  from l s u show ?thesis by simp
qed

theorem cleanupOldSummaries_exact_witness:
  "store_ok (local_area example_store)
   \<and> getAllTabData (cleanupOldSummaries example_now example_store) =
       [example_tab\<lparr>tabId := 8, hasUnsavedChanges := True\<rparr>]
   \<and> getTabData 9 example_store = None
   \<and> updateTabSummary 9 example_summary example_now example_store = example_store"
proof -
  have k: "tab_key 8 \<noteq> tab_key 7" "tab_key 9 \<noteq> tab_key 7" "tab_key 9 \<noteq> tab_key 8"
    by (simp_all add: tab_key_inj)
  have n: "getTabData 9 example_store = None"
    using k by (simp add: getTabData_def example_store_def saveTabData_def empty_storage_def
        example_tab_def)
  have l: "local_area example_store =
             [(tab_key 7, example_tab),
              (tab_key 8, example_tab\<lparr>tabId := 8, hasUnsavedChanges := True\<rparr>)]"
    using k by (simp add: example_store_def saveTabData_def empty_storage_def example_tab_def)
  have s: "getSettings example_store = getDefaultSettings"
    by (simp add: getSettings_def example_store_def saveTabData_def empty_storage_def Let_def)
  have c: "local_area (cleanupOldSummaries example_now example_store) =
             [(tab_key 8, example_tab\<lparr>tabId := 8, hasUnsavedChanges := True\<rparr>)]"
    using cleanupOldSummaries_exact [OF example_store_ok, of example_now 9 example_summary]
    by (simp add: l s getDefaultSettings_def example_now_def example_tab_def)
  have g: "getAllTabData (cleanupOldSummaries example_now example_store) =
             [example_tab\<lparr>tabId := 8, hasUnsavedChanges := True\<rparr>]"
    by (simp add: getAllTabData_def c startsWith_tab_key)
  from cleanupOldSummaries_exact [OF example_store_ok, of example_now 9 example_summary] n
  have u: "updateTabSummary 9 example_summary example_now example_store = example_store"
    by simp
  from example_store_ok g n u show ?thesis by simp
qed



subsection \<open>The warning before a tab is closed\<close>

text \<open>
  C1. The \<^verbatim>\<open>beforeunload\<close> listener warns (it prevents the default and returns a
  message) exactly when the page's \<^verbatim>\<open>isSiteProtected\<close> is set and there are unsaved
  changes, on the page or in the tracked form; on a page that is not protected it does
  nothing. \<^verbatim>\<open>checkProtectionStatus\<close> sets \<^verbatim>\<open>isSiteProtected\<close> exactly when the
  background script answers that the site is protected.
\<close>

theorem beforeunload_warns_iff:
  "(returnValue (beforeunload page) \<noteq> None \<longleftrightarrow>
      isSiteProtected page \<and>
      (page_hasUnsavedChanges page \<or>
       (\<exists>formData. currentFormData page = Some formData \<and> form_hasUnsavedChanges formData)))
   \<and> (defaultPrevented (beforeunload page) \<longleftrightarrow> returnValue (beforeunload page) \<noteq> None)
   \<and> (\<not> isSiteProtected page \<longrightarrow>
        beforeunload page = \<lparr>defaultPrevented = False, returnValue = None\<rparr>)
   \<and> (isSiteProtected (checkProtectionStatus reply page) \<longleftrightarrow>
        isSiteProtected page \<or> reply = Inr (Some \<lparr>isProtected = True\<rparr>))"
  by (auto simp: beforeunload_def checkProtectionStatus_def Let_def
      split: option.splits sum.splits)

theorem beforeunload_warns_iff_witness:
  "\<not> isSiteProtected unprotected_page
   \<and> beforeunload unprotected_page = \<lparr>defaultPrevented = False, returnValue = None\<rparr>
   \<and> isSiteProtected
         (checkProtectionStatus (Inr (Some \<lparr>isProtected = True\<rparr>)) unprotected_page)
   \<and> returnValue (beforeunload
         (checkProtectionStatus (Inr (Some \<lparr>isProtected = True\<rparr>)) unprotected_page))
       \<noteq> None"
proof -
  let ?p = "checkProtectionStatus (Inr (Some \<lparr>isProtected = True\<rparr>)) unprotected_page"
  have u: "\<not> isSiteProtected unprotected_page"
    by (simp add: unprotected_page_def initial_page_def)
  have c: "page_hasUnsavedChanges ?p"
    by (simp add: checkProtectionStatus_def unprotected_page_def initial_page_def)
  from u c
    beforeunload_warns_iff [of unprotected_page "Inr (Some \<lparr>isProtected = True\<rparr>)"]
    beforeunload_warns_iff [of ?p "Inr None"]
  show ?thesis by simp
qed

subsection \<open>The answer to \<^verbatim>\<open>GET_PROTECTION_STATUS\<close>\<close>

text \<open>
  C5. The background script answers a \<^verbatim>\<open>GET_PROTECTION_STATUS\<close> message from a tab with
  \<^verbatim>\<open>isProtected\<close> true exactly when the host name is in the list stored under
  \<^verbatim>\<open>protectedSites\<close>; when the key is absent the list is empty and every host name is
  unprotected. (A message whose sender has no tab, or the tab id 0, gets no answer.)
\<close>

theorem protection_status_membership:
  "onMessage_GET_PROTECTION_STATUS (Some i) hostname st =
     (if i = 0 then None
      else Some \<lparr>isProtected =
             (case sync_protectedSites st of
                None \<Rightarrow> False
              | Some sites \<Rightarrow> hostname \<in> set sites)\<rparr>)
   \<and> onMessage_GET_PROTECTION_STATUS None hostname st = None"
  by (simp add: onMessage_GET_PROTECTION_STATUS_def array_includes_def or_else_def
      split: option.splits)

theorem protection_status_membership_witness:
  "onMessage_GET_PROTECTION_STATUS (Some 7) ''example.com'' protected_storage =
     Some \<lparr>isProtected = True\<rparr>
   \<and> onMessage_GET_PROTECTION_STATUS (Some 7) ''example.org'' protected_storage =
     Some \<lparr>isProtected = False\<rparr>
   \<and> onMessage_GET_PROTECTION_STATUS (Some 7) ''example.com'' empty_storage =
     Some \<lparr>isProtected = False\<rparr>"
  using protection_status_membership [of 7 "''example.com''" protected_storage]
    protection_status_membership [of 7 "''example.org''" protected_storage]
    protection_status_membership [of 7 "''example.com''" empty_storage]
  by (simp add: protected_storage_def empty_storage_def)

subsection \<open>When a tab is summarized\<close>

text \<open>
  C8. \<^verbatim>\<open>shouldSummarizeTab\<close> returns false when AI features are disabled, or the
  Summarizer API is not supported, or a summarization of the tab is in progress, or the
  content is shorter than 200 characters. When all these gates pass, for a tab whose URL
  has the host name \<open>hostname\<close>, it returns true if the host name is a protected site,
  and otherwise exactly when auto-summarize is enabled and the lower-cased URL contains
  one of \<^verbatim>\<open>blog\<close>, \<^verbatim>\<open>article\<close>, \<^verbatim>\<open>news\<close>, \<^verbatim>\<open>docs\<close>.
\<close>

theorem shouldSummarizeTab_gates:
  "(\<not> isAIFeaturesEnabled (storage bg) \<or> \<not> isSupported api
      \<or> (\<exists>status. summarizationStatus bg i = Some status \<and> isProcessing status)
      \<or> length content < 200
     \<longrightarrow> shouldSummarizeTab api url_hostname bg i tab_url content = Inr False)
   \<and> (isAIFeaturesEnabled (storage bg) \<and> isSupported api
        \<and> \<not> (\<exists>status. summarizationStatus bg i = Some status \<and> isProcessing status)
        \<and> 200 \<le> length content \<and> url_hostname tab_url = Some hostname
     \<longrightarrow> shouldSummarizeTab api url_hostname bg i tab_url content =
           Inr (hostname \<in> set (getProtectedSites (storage bg))
                \<or> (isAutoSummarizeEnabled (storage bg)
                    \<and> (\<exists>word \<in> {''blog'', ''article'', ''news'', ''docs''}.
                          \<exists>p q. toLowerCase tab_url = p @ word @ q))))"
proof -
  have gates: "\<not> isAIFeaturesEnabled (storage bg) \<or> \<not> isSupported api
      \<or> (\<exists>status. summarizationStatus bg i = Some status \<and> isProcessing status)
      \<or> length content < 200
     \<longrightarrow> shouldSummarizeTab api url_hostname bg i tab_url content = Inr False"
    by (auto simp: shouldSummarizeTab_def Let_def split: option.splits)
  have pass: "isAIFeaturesEnabled (storage bg) \<and> isSupported api
        \<and> \<not> (\<exists>status. summarizationStatus bg i = Some status \<and> isProcessing status)
        \<and> 200 \<le> length content \<and> url_hostname tab_url = Some hostname
     \<longrightarrow> shouldSummarizeTab api url_hostname bg i tab_url content =
           Inr (hostname \<in> set (getProtectedSites (storage bg))
                \<or> (isAutoSummarizeEnabled (storage bg)
                    \<and> (\<exists>word \<in> {''blog'', ''article'', ''news'', ''docs''}.
                          \<exists>p q. toLowerCase tab_url = p @ word @ q)))"
  proof
    assume h: "isAIFeaturesEnabled (storage bg) \<and> isSupported api
        \<and> \<not> (\<exists>status. summarizationStatus bg i = Some status \<and> isProcessing status)
        \<and> 200 \<le> length content \<and> url_hostname tab_url = Some hostname"
    then have np: "(case summarizationStatus bg i of
                    Some status \<Rightarrow> isProcessing status | None \<Rightarrow> False) = False"
      by (auto split: option.splits)
    from h have len: "\<not> length content < 200" by simp
    have words: "(\<exists>word \<in> {''blog'', ''article'', ''news'', ''docs''}.
                          \<exists>p q. toLowerCase tab_url = p @ word @ q)
          \<longleftrightarrow> string_includes (toLowerCase tab_url) ''blog''
                \<or> string_includes (toLowerCase tab_url) ''article''
                \<or> string_includes (toLowerCase tab_url) ''news''
                \<or> string_includes (toLowerCase tab_url) ''docs''"
      by (simp only: string_includes_iff) blast
    show "shouldSummarizeTab api url_hostname bg i tab_url content =
           Inr (hostname \<in> set (getProtectedSites (storage bg))
                \<or> (isAutoSummarizeEnabled (storage bg)
                    \<and> (\<exists>word \<in> {''blog'', ''article'', ''news'', ''docs''}.
                          \<exists>p q. toLowerCase tab_url = p @ word @ q)))"
      unfolding words using h np len
      by (simp add: shouldSummarizeTab_def Let_def array_includes_def)
  qed
  from gates pass show ?thesis by (rule conjI)
qed

lemma toLowerCase_example_url: "toLowerCase example_url = ''https://example.org/blog/1''"
  by code_simp

theorem shouldSummarizeTab_gates_witness:
  "isAIFeaturesEnabled (storage (new_background empty_storage)) \<and> isSupported example_api
   \<and> summarizationStatus (new_background empty_storage) 7 = None
   \<and> 200 \<le> length long_content \<and> example_hostname example_url = Some ''example.org''
   \<and> shouldSummarizeTab example_api example_hostname (new_background empty_storage) 7
         example_url long_content = Inr True
   \<and> length ''short'' < 200
   \<and> shouldSummarizeTab example_api example_hostname (new_background empty_storage) 7
         example_url ''short'' = Inr False"
proof -
  let ?bg = "new_background empty_storage"
  have h: "isAIFeaturesEnabled (storage ?bg)" "isSupported example_api"
    "summarizationStatus ?bg 7 = None" "200 \<le> length long_content"
    "example_hostname example_url = Some ''example.org''"
    "isAutoSummarizeEnabled (storage ?bg)"
    by (simp_all add: new_background_def empty_storage_def isAIFeaturesEnabled_def
        isAutoSummarizeEnabled_def getSettings_def getDefaultSettings_def isSupported_def
        example_api_def long_content_def example_hostname_def)
  have w: "toLowerCase example_url = ''https://example.org/'' @ ''blog'' @ ''/1''"
    by (simp add: toLowerCase_example_url)
  then have b: "\<exists>word \<in> {''blog'', ''article'', ''news'', ''docs''}.
                 \<exists>p q. toLowerCase example_url = p @ word @ q"
    by blast
  from h b shouldSummarizeTab_gates
    [of ?bg example_api 7 long_content example_hostname example_url "''example.org''"]
  have t: "shouldSummarizeTab example_api example_hostname ?bg 7 example_url long_content
             = Inr True"
    by simp
  from shouldSummarizeTab_gates
    [of ?bg example_api 7 "''short''" example_hostname example_url "''example.org''"]
  have f: "shouldSummarizeTab example_api example_hostname ?bg 7 example_url ''short''
             = Inr False"
    by simp
  from h t f show ?thesis by simp
qed

subsection \<open>The classification of a page\<close>

lemma querySelector_None_iff:
  "querySelector doc sels \<noteq> None \<longleftrightarrow> (\<exists>e \<in> set (elements doc). \<exists>s \<in> set sels. matches e s)"
  by (auto simp: querySelector_def find_None_iff list_ex_iff)

lemma querySelectorAll_nonempty_iff:
  "0 < length (querySelectorAll doc sels) \<longleftrightarrow>
     (\<exists>e \<in> set (elements doc). \<exists>s \<in> set sels. matches e s)"
  by (auto simp: querySelectorAll_def filter_empty_conv list_ex_iff)

lemma querySelectorAll_tag:
  "querySelectorAll doc [TagSel t] = filter (\<lambda>e. tag e = t) (elements doc)"
  by (simp add: querySelectorAll_def)

lemma filter_required_inputs:
  "filter is_required
     (querySelectorAll doc [TagSel ''input'', TagSel ''textarea'', TagSel ''select'']) =
   filter (\<lambda>e. (tag e = ''input'' \<or> tag e = ''textarea'' \<or> tag e = ''select'') \<and> is_required e)
     (elements doc)"
  by (auto simp: querySelectorAll_def intro: filter_cong)

text \<open>
  C3. \<^verbatim>\<open>performContentAnalysis\<close> classifies a page as a form if it has a form element;
  otherwise as an article if it has an article-like element (\<^verbatim>\<open>article\<close>,
  \<^verbatim>\<open>[role="main"]\<close>, \<^verbatim>\<open>main\<close>, \<^verbatim>\<open>.post\<close>, \<^verbatim>\<open>.entry\<close>); otherwise as a document
  if it has an editor-like element (\<^verbatim>\<open>.document\<close>, \<^verbatim>\<open>.editor\<close>,
  \<^verbatim>\<open>[contenteditable]\<close>); otherwise as general. For a form page the complexity is high
  with more than 2 forms, medium with more than 1, else low, and the risk level is high
  with more than 5 required fields, medium with more than 2, else low.
\<close>

theorem performContentAnalysis_classification:
  "contentType (performContentAnalysis doc) =
     (if \<exists>e \<in> set (elements doc). tag e = ''form'' then FormContent
      else if \<exists>e \<in> set (elements doc).
                tag e = ''article'' \<or> getAttribute e ''role'' = Some ''main'' \<or> tag e = ''main''
                \<or> ''post'' \<in> set (classList e) \<or> ''entry'' \<in> set (classList e)
      then ArticleContent
      else if \<exists>e \<in> set (elements doc).
                ''document'' \<in> set (classList e) \<or> ''editor'' \<in> set (classList e)
                \<or> hasAttribute e ''contenteditable''
      then DocumentContent
      else GeneralContent)
   \<and> ((\<exists>e \<in> set (elements doc). tag e = ''form'') \<longrightarrow>
        complexity (performContentAnalysis doc) =
          (if length (filter (\<lambda>e. tag e = ''form'') (elements doc)) > 2 then LevelHigh
           else if length (filter (\<lambda>e. tag e = ''form'') (elements doc)) > 1 then LevelMedium
           else LevelLow)
        \<and> riskLevel (performContentAnalysis doc) =
          (if length (filter (\<lambda>e. (tag e = ''input'' \<or> tag e = ''textarea'' \<or> tag e = ''select'')
                                   \<and> is_required e) (elements doc)) > 5 then LevelHigh
           else if length (filter (\<lambda>e. (tag e = ''input'' \<or> tag e = ''textarea''
                                          \<or> tag e = ''select'')
                                   \<and> is_required e) (elements doc)) > 2 then LevelMedium
           else LevelLow))"
proof -
  let ?form = "\<exists>e \<in> set (elements doc). tag e = ''form''"
  let ?article = "\<exists>e \<in> set (elements doc).
                tag e = ''article'' \<or> getAttribute e ''role'' = Some ''main'' \<or> tag e = ''main''
                \<or> ''post'' \<in> set (classList e) \<or> ''entry'' \<in> set (classList e)"
  let ?editor = "\<exists>e \<in> set (elements doc).
                ''document'' \<in> set (classList e) \<or> ''editor'' \<in> set (classList e)
                \<or> hasAttribute e ''contenteditable''"
  have f: "0 < length (querySelectorAll doc [TagSel ''form'']) \<longleftrightarrow> ?form"
    by (simp only: querySelectorAll_nonempty_iff) simp
  have a: "0 < length (querySelectorAll doc
                 [TagSel ''article'', AttrEqSel ''role'' ''main'', TagSel ''main''])
           \<or> querySelector doc [TagSel ''article'', ClassSel ''post'', ClassSel ''entry'']
                \<noteq> None
           \<longleftrightarrow> ?article"
    by (simp only: querySelectorAll_nonempty_iff querySelector_None_iff)
       (auto simp: array_includes_def)
  have d: "querySelector doc
             [ClassSel ''document'', ClassSel ''editor'', AttrSel ''contenteditable''] \<noteq> None
           \<longleftrightarrow> ?editor"
    by (simp only: querySelector_None_iff) (auto simp: array_includes_def)
  have ct: "contentType (performContentAnalysis doc) =
     (if ?form then FormContent else if ?article then ArticleContent
      else if ?editor then DocumentContent else GeneralContent)"
    unfolding f [symmetric] a [symmetric] d [symmetric]
    by (simp add: performContentAnalysis_def Let_def)
  have fm: "?form \<longrightarrow>
        complexity (performContentAnalysis doc) =
          (if length (filter (\<lambda>e. tag e = ''form'') (elements doc)) > 2 then LevelHigh
           else if length (filter (\<lambda>e. tag e = ''form'') (elements doc)) > 1 then LevelMedium
           else LevelLow)
        \<and> riskLevel (performContentAnalysis doc) =
          (if length (filter (\<lambda>e. (tag e = ''input'' \<or> tag e = ''textarea'' \<or> tag e = ''select'')
                                   \<and> is_required e) (elements doc)) > 5 then LevelHigh
           else if length (filter (\<lambda>e. (tag e = ''input'' \<or> tag e = ''textarea''
                                          \<or> tag e = ''select'')
                                   \<and> is_required e) (elements doc)) > 2 then LevelMedium
           else LevelLow)"
  proof
    assume "?form"
    then have pos: "0 < length (querySelectorAll doc [TagSel ''form''])" by (simp only: f)
    show "complexity (performContentAnalysis doc) =
          (if length (filter (\<lambda>e. tag e = ''form'') (elements doc)) > 2 then LevelHigh
           else if length (filter (\<lambda>e. tag e = ''form'') (elements doc)) > 1 then LevelMedium
           else LevelLow)
        \<and> riskLevel (performContentAnalysis doc) =
          (if length (filter (\<lambda>e. (tag e = ''input'' \<or> tag e = ''textarea'' \<or> tag e = ''select'')
                                   \<and> is_required e) (elements doc)) > 5 then LevelHigh
           else if length (filter (\<lambda>e. (tag e = ''input'' \<or> tag e = ''textarea''
                                          \<or> tag e = ''select'')
                                   \<and> is_required e) (elements doc)) > 2 then LevelMedium
           else LevelLow)"
      using pos
      by (simp add: performContentAnalysis_def Let_def filter_required_inputs
          querySelectorAll_tag [symmetric])
  qed
  from ct fm show ?thesis by (rule conjI)
qed

theorem performContentAnalysis_classification_witness:
  "(\<exists>e \<in> set (elements example_document). tag e = ''form'')
   \<and> contentType (performContentAnalysis example_document) = FormContent
   \<and> complexity (performContentAnalysis example_document) = LevelMedium
   \<and> riskLevel (performContentAnalysis example_document) = LevelMedium"
  using performContentAnalysis_classification [of example_document]
  by (simp add: example_document_def form_element_def required_input_def is_required_def
      hasAttribute_def)

subsection \<open>Errors of the summarizer\<close>

lemma generateTabSummary_returns:
  "fst (generateTabSummary i tab_url tab_title content now api bg) = Inr ()"
  by (simp add: generateTabSummary_def Let_def split: prod.splits sum.splits)

lemma generateTabSummary_logs:
  assumes "fst (generateTabSummary_try i tab_url tab_title content now api bg) = Inl e"
  shows "ConsoleError ''Failed to generate summary for tab:'' e
           \<in> set (console (snd (generateTabSummary i tab_url tab_title content now api bg)))"
  using assms
  by (auto simp: generateTabSummary_def Let_def console_error_def
      split: prod.splits sum.splits option.splits)

lemma summarize_rethrows:
  assumes "isInitialized bg" and "summarizer bg \<noteq> None"
    and "summarize_result api input ctx = Inl e"
  shows "summarize input ctx api bg =
           (Inl e, console_error ''Failed to generate summary:'' e bg)"
  using assms by (auto simp: summarize_def)

lemma summarize_uninitialized:
  assumes "\<not> isInitialized bg \<or> summarizer bg = None"
  shows "summarize input ctx api bg = (Inl (Error ''Summarizer not initialized''), bg)"
  using assms by (auto simp: summarize_def)

lemma initialize_rethrows:
  assumes "\<not> isInitialized bg" and "initializationPromise bg = None"
    and "fst (performInitialization_try config api bg) = Inl e"
  shows "fst (initialize config api bg) = Inl e
         \<and> last (console (snd (initialize config api bg))) =
             ConsoleError ''Failed to initialize summarizer:'' e"
  using assms
  by (auto simp: initialize_def performInitialization_def console_error_def
      split: prod.splits sum.splits)

text \<open>
  C6, as the code has it. \<^verbatim>\<open>SummarizerService.summarize\<close> logs an error of the
  Summarizer API and throws it again to its caller, and throws
  \<^verbatim>\<open>Summarizer not initialized\<close>, unlogged, when the service is not initialized;
  \<^verbatim>\<open>SummarizerService.initialize\<close> logs an error of the initialization and throws it
  again. The background script's \<^verbatim>\<open>generateTabSummary\<close> catches every such error, logs
  it to the console and returns normally.
\<close>

theorem summarizer_errors_rethrown_then_caught:
  "(isInitialized bg \<and> summarizer bg \<noteq> None \<and> summarize_result api input ctx = Inl e
      \<longrightarrow> summarize input ctx api bg =
            (Inl e, console_error ''Failed to generate summary:'' e bg))
   \<and> (\<not> isInitialized bg \<or> summarizer bg = None
      \<longrightarrow> summarize input ctx api bg = (Inl (Error ''Summarizer not initialized''), bg))
   \<and> (\<not> isInitialized bg \<and> initializationPromise bg = None
        \<and> fst (performInitialization_try config api bg) = Inl e
      \<longrightarrow> fst (initialize config api bg) = Inl e
          \<and> last (console (snd (initialize config api bg))) =
              ConsoleError ''Failed to initialize summarizer:'' e)
   \<and> fst (generateTabSummary i tab_url tab_title content now api bg) = Inr ()
   \<and> (fst (generateTabSummary_try i tab_url tab_title content now api bg) = Inl e
      \<longrightarrow> ConsoleError ''Failed to generate summary for tab:'' e
            \<in> set (console (snd (generateTabSummary i tab_url tab_title content now api bg))))"
  using summarize_rethrows [of bg api input ctx e]
    summarize_uninitialized [of bg input ctx api]
    initialize_rethrows [of bg config api e]
    generateTabSummary_returns [of i tab_url tab_title content now api bg]
    generateTabSummary_logs [of i tab_url tab_title content now api bg e]
  by blast

lemma initialized_background_eq:
  "initialized_background =
     \<lparr>storage = empty_storage,
      summarizer = Some \<lparr>option_type = KeyPoints, option_format = Markdown,
                          option_length = Medium, option_sharedContext = None\<rparr>,
      isInitialized = True, initializationPromise = Some (Inr ()),
      summarizationStatus = Map.empty,
      console = [ConsoleLog ''Summarizer initialized successfully'']\<rparr>"
  by (simp add: initialized_background_def initialize_def performInitialization_def
      performInitialization_try_def new_background_def example_api_def
      console_log_def empty_config_def or_else_def Let_def)

lemma unsupported_try:
  "fst (performInitialization_try empty_config unsupported_api (new_background empty_storage)) =
     Inl (Error ''Summarizer API is not supported in this browser'')"
  by (simp add: performInitialization_try_def unsupported_api_def example_api_def)

lemma unsupported_generate_try:
  "fst (generateTabSummary_try 7 example_url ''T'' long_content 5 unsupported_api
          (new_background empty_storage)) =
     Inl (Error ''Summarizer API is not supported in this browser'')"
  by (simp add: generateTabSummary_try_def initialize_def performInitialization_def
      performInitialization_try_def new_background_def unsupported_api_def example_api_def
      console_error_def Let_def)

theorem summarizer_errors_witness:
  "isInitialized initialized_background \<and> summarizer initialized_background \<noteq> None
   \<and> summarize_result failing_api ''text'' None = Inl (Error ''model crashed'')
   \<and> summarize ''text'' None failing_api initialized_background =
       (Inl (Error ''model crashed''),
        console_error ''Failed to generate summary:'' (Error ''model crashed'')
          initialized_background)
   \<and> \<not> isInitialized (new_background empty_storage)
   \<and> initializationPromise (new_background empty_storage) = None
   \<and> fst (initialize empty_config unsupported_api (new_background empty_storage)) =
       Inl (Error ''Summarizer API is not supported in this browser'')
   \<and> fst (generateTabSummary 7 example_url ''T'' long_content 5 unsupported_api
            (new_background empty_storage)) = Inr ()
   \<and> ConsoleError ''Failed to generate summary for tab:''
         (Error ''Summarizer API is not supported in this browser'')
       \<in> set (console (snd (generateTabSummary 7 example_url ''T'' long_content 5
                               unsupported_api (new_background empty_storage))))"
proof -
  have a: "isInitialized initialized_background" "summarizer initialized_background \<noteq> None"
    "summarize_result failing_api ''text'' None = Inl (Error ''model crashed'')"
    by (simp_all add: initialized_background_eq failing_api_def example_api_def)
  have b: "\<not> isInitialized (new_background empty_storage)"
    "initializationPromise (new_background empty_storage) = None"
    by (simp_all add: new_background_def)
  from a
    summarizer_errors_rethrown_then_caught
      [of initialized_background failing_api "''text''" None "Error ''model crashed''"]
  have s: "summarize ''text'' None failing_api initialized_background =
       (Inl (Error ''model crashed''),
        console_error ''Failed to generate summary:'' (Error ''model crashed'')
          initialized_background)"
    by blast
  from b unsupported_try unsupported_generate_try
    summarizer_errors_rethrown_then_caught
      [of "new_background empty_storage" unsupported_api "''text''" None
          "Error ''Summarizer API is not supported in this browser''" empty_config
          7 example_url "''T''" long_content 5]
  have i: "fst (initialize empty_config unsupported_api (new_background empty_storage)) =
       Inl (Error ''Summarizer API is not supported in this browser'')
     \<and> fst (generateTabSummary 7 example_url ''T'' long_content 5 unsupported_api
            (new_background empty_storage)) = Inr ()
     \<and> ConsoleError ''Failed to generate summary for tab:''
         (Error ''Summarizer API is not supported in this browser'')
       \<in> set (console (snd (generateTabSummary 7 example_url ''T'' long_content 5
                               unsupported_api (new_background empty_storage))))"
    by blast
  from a b s i show ?thesis by blast
qed

text \<open>
  The two methods do raise: \<^verbatim>\<open>summarize\<close> on a service that was never initialized, and
  \<^verbatim>\<open>initialize\<close> in a browser without the Summarizer API.
\<close>

theorem summarizer_raises_counterexample:
  "fst (summarize ''text'' None example_api (new_background empty_storage)) =
     Inl (Error ''Summarizer not initialized'')
   \<and> fst (initialize empty_config unsupported_api (new_background empty_storage)) =
     Inl (Error ''Summarizer API is not supported in this browser'')"
  by (simp add: summarize_def initialize_def performInitialization_def
      performInitialization_try_def new_background_def unsupported_api_def example_api_def
      console_error_def)

subsection \<open>The completion percentage of a form\<close>

lemma percentage_finite:
  "0 < r \<Longrightarrow> \<exists>q. math_round (times_100 (length_quotient c r)) = Finite q"
  by (simp add: length_quotient_def times_100_def math_round_def)

text \<open>
  With 23 of 40 required fields filled, the quotient of the two lengths is the double
  next below 0.575, its product with 100 is the double next below 57.5, and the
  percentage is 57; the rounded value of 100 * 23 / 40 is 58.
\<close>

lemma completion_23_of_40:
  "math_round (times_100 (length_quotient 23 40)) = Finite 57
   \<and> \<lfloor>(100 * 23 / 40 :: rat) + 1 / 2\<rfloor> = 58"
  by code_simp

lemma handleFieldChange_without_required:
  assumes i: "idx < length (form_fields formData)"
    and c: "field_value (form_fields formData ! idx) \<noteq> newValue"
    and r: "filter required (form_fields formData) = []"
  shows "completionPercentage
           (changed_form (handleFieldChange formData idx newValue now shown)) = NaN"
proof -
  let ?f = "(form_fields formData ! idx)\<lparr>field_value := newValue, isModified := True\<rparr>"
  from r have n: "\<forall>x \<in> set (form_fields formData). \<not> required x"
    by (simp add: filter_empty_conv)
  with i have "\<not> required ?f" by simp
  moreover have "set ((form_fields formData)[idx := ?f]) \<subseteq> insert ?f (set (form_fields formData))"
    by (rule set_update_subset_insert)
  ultimately have "\<forall>x \<in> set ((form_fields formData)[idx := ?f]). \<not> required x"
    using n by blast
  then have e: "filter required ((form_fields formData)[idx := ?f]) = []"
    by (simp add: filter_empty_conv)
  show ?thesis
    using c by (simp add: handleFieldChange_def Let_def e length_quotient_def times_100_def
        math_round_def)
qed

text \<open>
  C2. After \<^verbatim>\<open>handleFieldChange\<close> has processed a change of a field of a form without
  required fields, the form's \<^verbatim>\<open>completionPercentage\<close> is \<^verbatim>\<open>NaN\<close>, the result of
  \<^verbatim>\<open>Math.round((0 / 0) * 100)\<close>, and not a percentage.
\<close>

theorem handleFieldChange_no_required_fields:
  "completionPercentage (changed_form (handleFieldChange optional_form 0 ''a'' 1000 False)) = NaN
   \<and> filter required (form_fields optional_form) = []"
  by (simp add: handleFieldChange_def optional_form_def optional_field_def Let_def
      length_quotient_def times_100_def math_round_def)

subsection \<open>The lists of protected host names\<close>

lemma addProtectedSite_present:
  "array_includes (getProtectedSites st) site \<Longrightarrow> addProtectedSite site st = st"
  by (simp add: addProtectedSite_def)

lemma getProtectedSites_saveSettings:
  "getProtectedSites (saveSettings (no_patch\<lparr>patch_protectedSites := Some sites\<rparr>) st) = sites"
  by (simp add: getProtectedSites_def saveSettings_def getSettings_def spread_def or_else_def
      no_patch_def Let_def)

lemma addProtectedSite_distinct:
  "distinct (getProtectedSites st) \<Longrightarrow> distinct (getProtectedSites (addProtectedSite site st))"
  by (simp add: addProtectedSite_def Let_def getProtectedSites_saveSettings array_includes_def)

lemma removeProtectedSite_filter:
  "getProtectedSites (removeProtectedSite site st) =
     filter (\<lambda>s. s \<noteq> site) (getProtectedSites st)"
  by (simp add: removeProtectedSite_def Let_def getProtectedSites_saveSettings)

lemma toggle_click_distinct:
  "distinct (popup_protectedSites p) \<Longrightarrow>
     distinct (popup_protectedSites (toggle_click accepted p))"
  by (simp add: toggle_click_def Let_def generateRecommendations_def updateButtonStatus_def
      array_includes_def split: option.splits)

lemma recommendations_click_appends:
  "popup_protectedSites (recommendations_click ''Protect Site'' accepted p) =
     popup_protectedSites p @ [currentHostname p]"
  by (simp add: recommendations_click_def Let_def generateRecommendations_def
      updateButtonStatus_def split: option.splits)


text \<open>
  C4. The click listener of the popup's recommendations appends the host name without
  looking whether the list has it. A first click on \<^verbatim>\<open>Protect Site\<close> whose write the
  store rejects leaves the button in place and the host name in the popup's list; a
  second click, whose write goes through, stores the host name twice.
\<close>

theorem recommendation_click_duplicates:
  "sync_protectedSites (popup_storage
     (user_clicks_recommendation ''Protect Site'' True
        (user_clicks_recommendation ''Protect Site'' False
           (initializePopup ''example.com'' empty_storage)))) =
     Some [''example.com'', ''example.com'']"
  by (simp add: user_clicks_recommendation_def recommendations_click_def initializePopup_def
      generateRecommendations_def loadProtectedSites_def loadSettings_def
      updateButtonStatus_def empty_storage_def array_includes_def or_else_def
      getDefaultSettings_def Let_def)

end
